theory Spec2Isabelle
  imports Complex_Main "HOL-Library.Word"
begin

section \<open>Data model of script.js\<close>

text \<open>
  The model follows the declarations of script.js from line 117 on (module variables,
  sensor helpers, the mission catalogue and \<open>runMissionById\<close>). In the file the
  comment opened on line 1 is closed only on line 333, after the permission demo pasted
  into it; the helpers are modelled as the declarations they are written as.

  JavaScript numbers are modelled as reals (integers where the program only counts), a
  byte of a typed array as an 8-bit word. \<open>null\<close> results are \<open>None\<close>, a rejected
  promise or a thrown exception is the left injection of a sum.
\<close>

type_synonym byte = "8 word"

text \<open>
  \<open>PermissionDenied\<close> is the rejection of \<open>getUserMedia\<close>, \<open>WebAudioError\<close> what
  the Web Audio set-up of \<open>ensureMic\<close> throws, \<open>TypeError\<close> a method call on a handle
  that is null, \<open>Unmodelled\<close> a sampling window whose quotient is no real number (see
  \<open>sampleCount\<close>).
\<close>

datatype error = PermissionDenied | WebAudioError | TypeError | Unmodelled

text \<open>
  A printed line is a template literal: literal text, \<open>x.toFixed(d)\<close>, integers
  and the text of a caught error.
  The marks of the messages are the UTF-8 bytes of the source's glyphs.
\<close>

datatype piece = Txt string | Fixed real nat | Num int | Err error

type_synonym line = "piece list"

definition check_mark :: string where
  "check_mark = [CHR 0xE2, CHR 0x9C, CHR 0x85]"

definition cross_mark :: string where
  "cross_mark = [CHR 0xE2, CHR 0x9D, CHR 0x8C]"

definition em_dash :: string where
  "em_dash = [CHR 0xE2, CHR 0x80, CHR 0x94]"

definition party_mark :: string where
  "party_mark = [CHR 0xF0, CHR 0x9F, CHR 0x8E, CHR 0x89]"

record face =
  box_x :: real
  box_y :: real
  box_width :: real
  box_height :: real

datatype detect = DetectThrows | Detected "face list"

datatype face_result = NotAvailable | Available "face list"

record accel =
  ax :: "real option"
  ay :: "real option"
  az :: "real option"

record motion_event =
  accelerationIncludingGravity :: "accel option"
  acceleration :: "accel option"

datatype motion_permission = NotRequired | Granted | Refused

text \<open>
  The Web Audio set-up of \<open>ensureMic\<close> after the stream is granted: it works, or the
  first statement that throws is the construction of the \<open>AudioContext\<close>,
  \<open>createMediaStreamSource\<close>, \<open>createAnalyser\<close> or \<open>source.connect\<close>.
\<close>

datatype web_audio = AudioWorks | ContextThrows | SourceThrows | AnalyserThrows | ConnectThrows

record coords =
  latitude :: real
  longitude :: real

text \<open>
  The platform is everything the page reads from the browser during a run: the answer of
  \<open>getUserMedia\<close> for the camera and for the microphone (the same for every request of
  the run), how the Web Audio set-up ends, whether \<open>FaceDetector\<close> exists, the size of the video, the k-th pixel
  buffer \<open>getImageData\<close> returns, the k-th buffer \<open>getByteTimeDomainData\<close> writes,
  the answers of \<open>fd.detect\<close> within the timeout of the k-th \<open>detectFace\<close>, the
  motion events dispatched while a mission waits for them (each with the value of
  \<open>Date.now()\<close> in the handler), and the k-th geolocation answer.
\<close>

record platform =
  cameraGrant :: bool
  micGrant :: bool
  webAudio :: web_audio
  faceDetectorAvailable :: bool
  videoWidth :: nat
  videoHeight :: nat
  frames :: "nat \<Rightarrow> byte list"
  audio :: "nat \<Rightarrow> byte list"
  detections :: "nat \<Rightarrow> detect list"
  motionPermission :: motion_permission
  motionEvents :: "(motion_event \<times> int) list"
  geoFixes :: "nat \<Rightarrow> coords option"

text \<open>
  The module-level variables of the script (a handle is modelled by whether it is set),
  whether \<open>motionHandler\<close> is registered on the window, the canvas size, the two text
  elements, and how far the page has read into each input of the platform:
  \<open>detectCalls\<close> counts the calls of \<open>detectFace\<close>.
\<close>

record state =
  score :: int
  cameraStream :: bool
  camVideoSrc :: bool
  micStream :: bool
  audioContext :: bool
  micAnalyser :: bool
  micDataArray :: bool
  motionActive :: bool
  motionListening :: bool
  motionCounts :: nat
  lastMotionTimestamp :: int
  canvasWidth :: nat
  canvasHeight :: nat
  outputText :: "line list"
  perms :: string
  framesRead :: nat
  buffersRead :: nat
  detectCalls :: nat
  geoCalls :: nat

section \<open>Printing, score, permissions\<close>

definition println :: "line \<Rightarrow> state \<Rightarrow> state" where
  "println s st = st\<lparr>outputText := outputText st @ [s]\<rparr>"

definition setScore :: "int \<Rightarrow> state \<Rightarrow> state" where
  "setScore n st = st\<lparr>score := n\<rparr>"

definition addScore :: "int \<Rightarrow> state \<Rightarrow> state" where
  "addScore delta st = setScore (score st + delta) (st\<lparr>score := score st + delta\<rparr>)"

definition updatePerms :: "platform \<Rightarrow> state \<Rightarrow> state" where
  "updatePerms p st =
     st\<lparr>perms := ''camera:'' @ (if cameraStream st then ''ok'' else ''no'')
                 @ '' mic:'' @ (if micStream st then ''ok'' else ''no'')
                 @ '' faceAPI:'' @ (if faceDetectorAvailable p then ''yes'' else ''no'')\<rparr>"

definition ensureCamera :: "platform \<Rightarrow> state \<Rightarrow> (error + unit) \<times> state" where
  "ensureCamera p st =
     (if cameraStream st then (Inr (), st)
      else if cameraGrant p
        then (Inr (), updatePerms p (st\<lparr>cameraStream := True, camVideoSrc := True\<rparr>))
        else (Inl PermissionDenied,
              println [Txt ''Error: camera permission denied or unavailable.''] st))"

text \<open>
  \<open>ensureMic\<close>. The \<open>try\<close> block assigns \<open>micStream\<close> first, then \<open>audioContext\<close>,
  \<open>micAnalyser\<close> and \<open>micDataArray\<close>; a statement that throws leaves what was assigned
  before it, and the \<open>catch\<close> prints and throws again.
\<close>

definition ensureMic :: "platform \<Rightarrow> state \<Rightarrow> (error + unit) \<times> state" where
  "ensureMic p st =
     (if micStream st then (Inr (), st)
      else if micGrant p
        then (let st1 = st\<lparr>micStream := True\<rparr>;
                  failed = (\<lambda>s. (Inl WebAudioError,
                     println [Txt ''Error: microphone permission denied or unavailable.''] s))
              in case webAudio p of
                   ContextThrows \<Rightarrow> failed st1
                 | SourceThrows \<Rightarrow> failed (st1\<lparr>audioContext := True\<rparr>)
                 | AnalyserThrows \<Rightarrow> failed (st1\<lparr>audioContext := True\<rparr>)
                 | ConnectThrows \<Rightarrow>
                     failed (st1\<lparr>audioContext := True, micAnalyser := True,
                                  micDataArray := True\<rparr>)
                 | AudioWorks \<Rightarrow>
                     (Inr (), updatePerms p (st1\<lparr>audioContext := True, micAnalyser := True,
                                                    micDataArray := True\<rparr>)))
        else (Inl PermissionDenied,
              println [Txt ''Error: microphone permission denied or unavailable.''] st))"

section \<open>Sensor helpers\<close>

text \<open>\<open>v || d\<close> on a dimension: zero is falsy.\<close>

definition dimOr :: "nat \<Rightarrow> nat \<Rightarrow> nat" where
  "dimOr v d = (if v = 0 then d else v)"

text \<open>
  \<open>Math.max(1, Math.floor(durationMs / sampleInterval))\<close>. With a zero interval the
  quotient is an infinity or NaN, which no real is: that call is outside the model.
\<close>

definition sampleCount :: "real \<Rightarrow> real \<Rightarrow> nat option" where
  "sampleCount durationMs sampleInterval =
     (if sampleInterval = 0 then None
      else Some (nat (max 1 \<lfloor>durationMs / sampleInterval\<rfloor>)))"

text \<open>
  \<open>ctx.drawImage(camVideo, ...)\<close> followed by \<open>ctx.getImageData(...).data\<close>: the next
  capture of the canvas.
\<close>

definition getImageData :: "platform \<Rightarrow> state \<Rightarrow> byte list \<times> state" where
  "getImageData p st = (frames p (framesRead st), st\<lparr>framesRead := framesRead st + 1\<rparr>)"

definition luminance :: "byte \<Rightarrow> byte \<Rightarrow> byte \<Rightarrow> real" where
  "luminance r g b = 0.2126 * real (unat r) + 0.7152 * real (unat g) + 0.0722 * real (unat b)"

text \<open>
  The inner loop \<open>for (p = 0; p < img.length; p += 4)\<close>. The data of an ImageData is
  four bytes per pixel (the statements assume frames of 4 * width * height bytes), so the
  second equation is reached on the empty rest only.
\<close>

fun lumSum :: "real \<Rightarrow> byte list \<Rightarrow> real" where
  "lumSum sm (r # g # b # a # rest) = lumSum (sm + luminance r g b) rest"
| "lumSum sm _ = sm"

text \<open>The sampling loop of \<open>measureBrightness\<close>; the first argument is \<open>samples - i\<close>.\<close>

fun brightnessLoop :: "platform \<Rightarrow> nat \<Rightarrow> real \<times> nat \<times> state \<Rightarrow> real \<times> nat \<times> state" where
  "brightnessLoop p 0 acc = acc"
| "brightnessLoop p (Suc n) (tot, cnt, st) =
     (let (img, st1) = getImageData p st;
          sm = lumSum 0 img
      in brightnessLoop p n
           (tot + sm / real (canvasWidth st1 * canvasHeight st1), cnt + 1, st1))"

definition measureBrightness ::
  "platform \<Rightarrow> real \<Rightarrow> real \<Rightarrow> state \<Rightarrow> (error + real option) \<times> state" where
  "measureBrightness p durationMs sampleInterval st =
     (case ensureCamera p st of
        (Inl e, st1) \<Rightarrow> (Inr None, st1)
      | (Inr u, st1) \<Rightarrow>
          (let st2 = st1\<lparr>canvasWidth := dimOr (videoWidth p) 320,
                         canvasHeight := dimOr (videoHeight p) 240\<rparr>
           in case sampleCount durationMs sampleInterval of
                None \<Rightarrow> (Inl Unmodelled, st2)
              | Some samples \<Rightarrow>
                  (let (tot, cnt, st3) = brightnessLoop p samples (0, 0, st2)
                   in (Inr (Some (tot / real cnt)), st3))))"

text \<open>
  The inner loop of \<open>measureSoundLevel\<close> over the bytes of the buffer, and the root
  mean square of a buffer. \<open>data.length\<close> is the \<open>frequencyBinCount\<close> of the analyser,
  512; the statements about sound assume buffers of that length (on an empty buffer
  JavaScript divides 0 by 0).
\<close>

fun squareSum :: "real \<Rightarrow> byte list \<Rightarrow> real" where
  "squareSum sm [] = sm"
| "squareSum sm (d # rest) =
     (let v = (real (unat d) - 128) / 128 in squareSum (sm + v * v) rest)"

definition getByteTimeDomainData :: "platform \<Rightarrow> state \<Rightarrow> byte list \<times> state" where
  "getByteTimeDomainData p st = (audio p (buffersRead st), st\<lparr>buffersRead := buffersRead st + 1\<rparr>)"

definition bufferRms :: "byte list \<Rightarrow> real" where
  "bufferRms data = sqrt (squareSum 0 data / real (length data))"

fun soundLoop :: "platform \<Rightarrow> nat \<Rightarrow> real \<times> nat \<times> state \<Rightarrow> real \<times> nat \<times> state" where
  "soundLoop p 0 acc = acc"
| "soundLoop p (Suc n) (tot, cnt, st) =
     (let (data, st1) = getByteTimeDomainData p st;
          rms = bufferRms data
      in soundLoop p n (tot + rms, cnt + 1, st1))"

text \<open>
  \<open>measureSoundLevel\<close>. When the stream is cached but the analyser or its array is not
  set, the first \<open>analyser.getByteTimeDomainData(data)\<close> throws.
\<close>

definition measureSoundLevel ::
  "platform \<Rightarrow> real \<Rightarrow> real \<Rightarrow> state \<Rightarrow> (error + real option) \<times> state" where
  "measureSoundLevel p durationMs sampleInterval st =
     (case ensureMic p st of
        (Inl e, st1) \<Rightarrow> (Inr None, st1)
      | (Inr u, st1) \<Rightarrow>
          (case sampleCount durationMs sampleInterval of
             None \<Rightarrow> (Inl Unmodelled, st1)
           | Some samples \<Rightarrow>
               if \<not> micAnalyser st1 \<or> \<not> micDataArray st1 then (Inl TypeError, st1)
               else (let (tot, cnt, st2) = soundLoop p samples (0, 0, st1)
                     in (Inr (Some (tot / real cnt)), st2))))"

text \<open>
  \<open>detectFace\<close>. The loop runs while \<open>Date.now() - start < timeoutMs\<close>; the platform
  gives the answers of \<open>fd.detect\<close> that fall inside that time, in order. A throwing
  detection leaves the loop, a non-empty answer returns it, the end of the list is the
  timeout.
\<close>

fun detectLoop :: "detect list \<Rightarrow> face list" where
  "detectLoop [] = []"
| "detectLoop (DetectThrows # rest) = []"
| "detectLoop (Detected faces # rest) = (if faces \<noteq> [] then faces else detectLoop rest)"

definition detectFace :: "platform \<Rightarrow> real \<Rightarrow> state \<Rightarrow> face_result \<times> state" where
  "detectFace p timeoutMs st =
     (let st0 = st\<lparr>detectCalls := detectCalls st + 1\<rparr>
      in case ensureCamera p st0 of
           (Inl e, st1) \<Rightarrow> (NotAvailable, st1)
         | (Inr u, st1) \<Rightarrow>
             if \<not> faceDetectorAvailable p then (NotAvailable, st1)
             else (let st2 = st1\<lparr>canvasWidth := dimOr (videoWidth p) 320,
                                  canvasHeight := dimOr (videoHeight p) 240\<rparr>
                   in (Available (if timeoutMs \<le> 0 then []
                                  else detectLoop (detections p (detectCalls st))), st2)))"

text \<open>\<open>res.faces && res.faces.length > 0\<close> as a condition.\<close>

definition facePresent :: "face_result \<Rightarrow> bool" where
  "facePresent res = (case res of NotAvailable \<Rightarrow> False | Available faces \<Rightarrow> faces \<noteq> [])"

text \<open>Device motion: \<open>ev.accelerationIncludingGravity || ev.acceleration || {}\<close> and \<open>a.x || 0\<close>.\<close>

definition accelOf :: "motion_event \<Rightarrow> accel" where
  "accelOf ev =
     (case accelerationIncludingGravity ev of
        Some a \<Rightarrow> a
      | None \<Rightarrow> (case acceleration ev of
                   Some a \<Rightarrow> a
                 | None \<Rightarrow> \<lparr>ax = None, ay = None, az = None\<rparr>))"

definition orZero :: "real option \<Rightarrow> real" where
  "orZero v = (case v of None \<Rightarrow> 0 | Some x \<Rightarrow> x)"

definition magnitude :: "motion_event \<Rightarrow> real" where
  "magnitude ev =
     (let a = accelOf ev; x = orZero (ax a); y = orZero (ay a); z = orZero (az a)
      in sqrt (x * x + y * y + z * z))"

text \<open>The handler of \<open>startMotionCounting\<close>; \<open>t\<close> is \<open>Date.now()\<close> at the event.\<close>

definition motionHandler :: "motion_event \<Rightarrow> int \<Rightarrow> state \<Rightarrow> state" where
  "motionHandler ev t st =
     (let mag = magnitude ev
      in if mag > 12 \<and> (lastMotionTimestamp st = 0 \<or> t - lastMotionTimestamp st > 300)
         then st\<lparr>motionCounts := motionCounts st + 1, lastMotionTimestamp := t\<rparr>
         else st)"

text \<open>
  Where \<open>DeviceMotionEvent.requestPermission\<close> exists the handler is registered when the
  permission is granted; the grant is taken to arrive before the first event.
\<close>

definition startMotionCounting :: "platform \<Rightarrow> state \<Rightarrow> state" where
  "startMotionCounting p st =
     (if motionActive st then st
      else (let st1 = st\<lparr>motionCounts := 0, lastMotionTimestamp := 0\<rparr>;
                st2 = (case motionPermission p of
                         Refused \<Rightarrow> st1
                       | Granted \<Rightarrow> st1\<lparr>motionListening := True\<rparr>
                       | NotRequired \<Rightarrow> st1\<lparr>motionListening := True\<rparr>)
            in st2\<lparr>motionActive := True\<rparr>))"

definition stopMotionCounting :: "state \<Rightarrow> state" where
  "stopMotionCounting st =
     (if \<not> motionActive st then st
      else st\<lparr>motionListening := False, motionActive := False\<rparr>)"

text \<open>The events the window dispatches while a mission waits with the handler registered.\<close>

fun dispatchMotion :: "(motion_event \<times> int) list \<Rightarrow> state \<Rightarrow> state" where
  "dispatchMotion [] st = st"
| "dispatchMotion ((ev, t) # rest) st =
     dispatchMotion rest (if motionListening st then motionHandler ev t st else st)"

definition getGeoPosition :: "platform \<Rightarrow> state \<Rightarrow> coords option \<times> state" where
  "getGeoPosition p st = (geoFixes p (geoCalls st), st\<lparr>geoCalls := geoCalls st + 1\<rparr>)"

section \<open>Missions\<close>

type_synonym runner = "platform \<Rightarrow> state \<Rightarrow> (error + bool) \<times> state"

definition mission1 :: runner where
  "mission1 p st =
     (let st1 = println [Txt ''Measuring ambient brightness using camera...''] st
      in case measureBrightness p 2000 250 st1 of
           (Inl e, st2) \<Rightarrow> (Inl e, st2)
         | (Inr None, st2) \<Rightarrow>
             (Inr False, println [Txt ''Camera unavailable. Mission failed.''] st2)
         | (Inr (Some lum), st2) \<Rightarrow>
             (let st3 = println [Txt ''Avg luminance: '', Fixed lum 1, Txt '' (0..255).''] st2
              in if lum < 35
                 then (Inr True, println [Txt (check_mark @ '' Dark detected.'')] st3)
                 else (Inr False, println [Txt (cross_mark @ '' Too bright.'')] st3)))"

definition mission4 :: runner where
  "mission4 p st =
     (if \<not> faceDetectorAvailable p
      then (Inr False,
            println [Txt (''Face Detector API not available in this browser '' @ em_dash
                          @ '' cannot auto-detect smile.'')] st)
      else (let st1 = println [Txt (''Looking for a face '' @ em_dash
                                    @ '' please face the camera and smile when ready.'')] st;
                (res, st2) = detectFace p 4000 st1
            in case res of
                 NotAvailable \<Rightarrow> (Inr False, println [Txt ''Face detection not supported.''] st2)
               | Available faces \<Rightarrow>
                   if faces \<noteq> []
                   then (Inr True,
                         println [Txt (check_mark @ '' Face detected (''),
                                  Num (int (length faces)),
                                  Txt ('') '' @ em_dash
                                       @ '' (smile detection not supported by API here).'')] st2)
                   else (Inr False, println [Txt (cross_mark @ '' No face found.'')] st2)))"

definition mission9 :: runner where
  "mission9 p st =
     (if \<not> faceDetectorAvailable p
      then (case ensureCamera p st of
              (Inr u, st1) \<Rightarrow>
                (Inr True,
                 println [Txt (''FaceDetector not available '' @ em_dash
                               @ '' assuming face present if camera works.'')] st1)
            | (Inl e, st1) \<Rightarrow> (Inr False, println [Txt ''Camera fail''] st1))
      else (let st1 = println [Txt ''Detecting face...''] st;
                (res, st2) = detectFace p 3000 st1
            in case res of
                 NotAvailable \<Rightarrow> (Inr False, println [Txt ''FaceDetector API not ready.''] st2)
               | Available faces \<Rightarrow>
                   if faces \<noteq> []
                   then (Inr True, println [Txt (check_mark @ '' Face found.'')] st2)
                   else (Inr False, println [Txt (cross_mark @ '' No face detected.'')] st2)))"

definition mission14 :: runner where
  "mission14 p st =
     (let (faceRes, st1) =
            (if faceDetectorAvailable p then detectFace p 2500 st
             else (NotAvailable, snd (ensureCamera p st)));
          (sound, st2) =
            (case measureSoundLevel p 2500 250 st1 of
               (Inl e, s) \<Rightarrow> (None, s)
             | (Inr v, s) \<Rightarrow> (v, s))
      in if facePresent faceRes \<and> (case sound of None \<Rightarrow> False | Some v \<Rightarrow> v < 0.02)
         then (Inr True, println [Txt (check_mark @ '' Silent selfie OK.'')] st2)
         else (Inr False, println [Txt (cross_mark @ '' Silent selfie failed.'')] st2))"

definition mission18 :: runner where
  "mission18 p st =
     (let st1 = println [Txt ''Whisper now for 3 seconds.''] st
      in case measureSoundLevel p 3000 200 st1 of
           (Inl e, st2) \<Rightarrow> (Inl e, st2)
         | (Inr rms, st2) \<Rightarrow>
             if (case rms of None \<Rightarrow> False | Some v \<Rightarrow> v > 0.01 \<and> v < 0.05)
             then (Inr True, println [Txt (check_mark @ '' Whisper detected.'')] st2)
             else (Inr False,
                   println [Txt (cross_mark @ '' Whisper not detected / too loud.'')] st2))"

definition mission20 :: runner where
  "mission20 p st =
     (if \<not> faceDetectorAvailable p
      then (Inr False,
            println [Txt (''FaceDetector not available '' @ em_dash @ '' failed.'')] st)
      else (let st1 = println [Txt ''Please look at camera and blink once.''] st;
                (res1, st2) = detectFace p 1200 st1;
                (res2, st3) = detectFace p 1200 st2;
                present1 = facePresent res1;
                present2 = facePresent res2
            in if present1 \<and> \<not> present2
               then (Inr True,
                     println [Txt (check_mark @ '' Blink-like disappearance detected.'')] st3)
               else (Inr False, println [Txt (cross_mark @ '' Blink not detected.'')] st3)))"

definition mission23 :: runner where
  "mission23 p st =
     (if \<not> faceDetectorAvailable p
      then (Inr False,
            println [Txt (''No FaceDetector '' @ em_dash @ '' mission failed.'')] st)
      else (let st1 = println [Txt ''Turn your head left or right while looking at camera.''] st;
                (res, st2) = detectFace p 3000 st1;
                failed = (Inr False, println [Txt (cross_mark @ '' Head turn not detected.'')] st2)
            in case res of
                 NotAvailable \<Rightarrow> failed
               | Available [] \<Rightarrow> failed
               | Available (f # fs) \<Rightarrow>
                   (let cx = box_x f + box_width f / 2
                    in if cx < real (canvasWidth st2) * 0.3 \<or> cx > real (canvasWidth st2) * 0.7
                       then (Inr True,
                             println [Txt (check_mark @ '' Head turned detected.'')] st2)
                       else failed)))"

text \<open>
  The distance of mission 24 between the first fix \<open>c1\<close> and the second fix \<open>c2\<close>
  (the three lines \<open>dx\<close>, \<open>dy\<close>, \<open>dist\<close>).
\<close>

definition geoDistance :: "coords \<Rightarrow> coords \<Rightarrow> real" where
  "geoDistance c1 c2 =
     (let dx = (latitude c2 - latitude c1) * 111000;
          dy = (longitude c2 - longitude c1) * 111000 * cos (latitude c1 * pi / 180)
      in sqrt (dx * dx + dy * dy))"

definition mission24 :: runner where
  "mission24 p st =
     (let st1 = println [Txt ''We will capture a location now. Then move ~10m and run again (5s wait here).''] st;
          (p1, st2) = getGeoPosition p st1
      in case p1 of
           None \<Rightarrow> (Inr False, println [Txt (cross_mark @ '' Initial location not available.'')] st2)
         | Some c1 \<Rightarrow>
             (let st3 = println [Txt ''Initial: '', Fixed (latitude c1) 5, Txt '', '',
                                 Fixed (longitude c1) 5] st2;
                  st4 = println [Txt ''Move a short distance now (you have ~10 seconds).''] st3;
                  (p2, st5) = getGeoPosition p st4
              in case p2 of
                   None \<Rightarrow>
                     (Inr False,
                      println [Txt (cross_mark @ '' Second location not available.'')] st5)
                 | Some c2 \<Rightarrow>
                     (let dist = geoDistance c1 c2;
                          st6 = println [Txt ''Moved approx '', Num \<lfloor>dist + 1 / 2\<rfloor>,
                                         Txt '' meters''] st5
                      in if dist > 8
                         then (Inr True, println [Txt (check_mark @ '' Movement detected.'')] st6)
                         else (Inr False,
                               println [Txt (cross_mark @ '' Not moved enough.'')] st6))))"

text \<open>The pixel loop of mission 29: counts of dark and of bright pixels.\<close>

fun contrastLoop :: "nat \<Rightarrow> nat \<Rightarrow> byte list \<Rightarrow> nat \<times> nat" where
  "contrastLoop dark bright (r # g # b # a # rest) =
     (let lum = luminance r g b
      in contrastLoop (if lum < 40 then dark + 1 else dark)
                      (if lum > 215 then bright + 1 else bright) rest)"
| "contrastLoop dark bright _ = (dark, bright)"

text \<open>
  Mission 29. The handler given to \<open>catch\<close> prints and returns \<open>false\<close> to the promise
  chain; the mission goes on after it.
\<close>

definition mission29 :: runner where
  "mission29 p st =
     (let st1 = println [Txt ''Point camera at a black/white high-contrast pattern now.''] st;
          st2 = (case ensureCamera p st1 of
                   (Inl e, s) \<Rightarrow> println [Txt ''No camera''] s
                 | (Inr u, s) \<Rightarrow> s);
          st3 = st2\<lparr>canvasWidth := dimOr (videoWidth p) 320,
                    canvasHeight := dimOr (videoHeight p) 240\<rparr>;
          (d, st4) = getImageData p st3;
          (dark, bright) = contrastLoop 0 0 d;
          ratio = real (dark + bright) / real (canvasWidth st4 * canvasHeight st4);
          st5 = println [Txt ''Contrast ratio: '', Fixed (ratio * 100) 1, Txt ''%''] st4
      in if ratio > 0.18
         then (Inr True, println [Txt (check_mark @ '' High contrast detected.'')] st5)
         else (Inr False, println [Txt (cross_mark @ '' Not enough contrast.'')] st5))"

definition mission32 :: runner where
  "mission32 p st =
     (if \<not> faceDetectorAvailable p
      then (Inr False, println [Txt ''No face detector available''] st)
      else (let st1 = println [Txt ''Smile at camera for 3 seconds.''] st;
                (r, st2) = detectFace p 3000 st1
            in if facePresent r
               then (Inr True,
                     println [Txt (check_mark @ '' Face detected (smile heuristic pass).'')] st2)
               else (Inr False, println [Txt (cross_mark @ '' No face detected.'')] st2)))"

text \<open>The two inner functions of mission 37, on the answer of their \<open>detectFace\<close>.\<close>

definition headLeft :: "face_result \<Rightarrow> state \<Rightarrow> bool" where
  "headLeft r st =
     (case r of
        NotAvailable \<Rightarrow> False
      | Available [] \<Rightarrow> False
      | Available (f # fs) \<Rightarrow> box_x f + box_width f / 2 < real (canvasWidth st) * 0.4)"

definition headRight :: "face_result \<Rightarrow> state \<Rightarrow> bool" where
  "headRight r st =
     (case r of
        NotAvailable \<Rightarrow> False
      | Available [] \<Rightarrow> False
      | Available (f # fs) \<Rightarrow> box_x f + box_width f / 2 > real (canvasWidth st) * 0.6)"

definition mission37 :: runner where
  "mission37 p st =
     (if \<not> faceDetectorAvailable p
      then (Inr False, println [Txt (''No FaceDetector '' @ em_dash @ '' fail.'')] st)
      else (let st1 = println [Txt ''First look center, then turn left, then right within 6 seconds.''] st;
                (r1, st2) = detectFace p 2000 st1;
                left = headLeft r1 st2;
                (r2, st3) = detectFace p 2000 st2;
                right = headRight r2 st3
            in if left \<and> right
               then (Inr True,
                     println [Txt (check_mark @ '' Left and right head turns detected.'')] st3)
               else (Inr False,
                     println [Txt (cross_mark @ '' Could not detect both head sides.'')] st3)))"

definition mission38 :: runner where
  "mission38 p st =
     (let st1 = println [Txt ''Clap loudly now, then stay silent.''] st
      in case measureSoundLevel p 1200 120 st1 of
           (Inl e, st2) \<Rightarrow> (Inl e, st2)
         | (Inr clap, st2) \<Rightarrow>
             (case measureSoundLevel p 4000 200 st2 of
                (Inl e, st3) \<Rightarrow> (Inl e, st3)
              | (Inr silence, st3) \<Rightarrow>
                  if (case clap of None \<Rightarrow> False | Some v \<Rightarrow> v > 0.08)
                     \<and> (case silence of None \<Rightarrow> False | Some v \<Rightarrow> v < 0.02)
                  then (Inr True,
                        println [Txt (check_mark @ '' Clap then silence detected.'')] st3)
                  else (Inr False, println [Txt (cross_mark @ '' Pattern not detected.'')] st3)))"

definition mission40 :: runner where
  "mission40 p st =
     (let st1 = println [Txt ''Final composite: look at camera, shout once, then shake quickly.''] st;
          (faceRes, st2) =
            (if faceDetectorAvailable p then detectFace p 2000 st1 else (NotAvailable, st1))
      in case measureSoundLevel p 1200 100 st2 of
           (Inl e, st3) \<Rightarrow> (Inl e, st3)
         | (Inr micR, st3) \<Rightarrow>
             (let st4 = (startMotionCounting p st3)\<lparr>motionCounts := 0\<rparr>;
                  st5 = dispatchMotion (motionEvents p) st4;
                  st6 = stopMotionCounting st5;
                  faceOk = facePresent faceRes;
                  micOk = (case micR of None \<Rightarrow> False | Some v \<Rightarrow> v > 0.08);
                  moveOk = (motionCounts st6 \<ge> 2);
                  st7 = println [Txt ''face:'',
                                 Txt (case faceRes of
                                        NotAvailable \<Rightarrow> ''undefined''
                                      | Available faces \<Rightarrow>
                                          if faces \<noteq> [] then ''true'' else ''false''),
                                 Txt '' mic:'',
                                 Fixed (case micR of None \<Rightarrow> 0 | Some v \<Rightarrow> v) 3,
                                 Txt '' move:'', Num (int (motionCounts st6))] st6
              in if faceOk \<and> micOk \<and> moveOk
                 then (Inr True,
                       println [Txt (party_mark @ check_mark
                                     @ '' Final composite mission success!'')] st7)
                 else (Inr False, println [Txt (cross_mark @ '' Final composite failed.'')] st7)))"

section \<open>The catalogue and the command that runs a mission\<close>

record mission =
  mission_id :: string
  title :: string
  desc :: string
  run :: runner

definition mk :: "string \<Rightarrow> string \<Rightarrow> string \<Rightarrow> runner \<Rightarrow> mission" where
  "mk i t d runner = \<lparr>mission_id = i, title = t, desc = d, run = runner\<rparr>"

text \<open>
  The catalogue has the forty entries of the source, in its order, with their ids and
  titles. The description texts and the bodies of the missions that are not modelled
  above are parameters.
\<close>

record others =
  descOf :: "string \<Rightarrow> string"
  runOf :: "string \<Rightarrow> runner"

definition entry :: "others \<Rightarrow> string \<Rightarrow> string \<Rightarrow> runner \<Rightarrow> mission" where
  "entry u i t runner = mk i t (descOf u i) runner"

definition missions :: "others \<Rightarrow> mission list" where
  "missions u =
     [entry u ''mission1'' ''Dark room - camera brightness'' mission1,
      entry u ''mission2'' ''Stay silent - microphone'' (runOf u ''mission2''),
      entry u ''mission3'' ''Hold still - motion sensor'' (runOf u ''mission3''),
      entry u ''mission4'' ''Smile detection - camera'' mission4,
      entry u ''mission5'' ''Walk 20 steps (proxy)'' (runOf u ''mission5''),
      entry u ''mission6'' ''Reaction Test'' (runOf u ''mission6''),
      entry u ''mission7'' ''Color test (blue)'' (runOf u ''mission7''),
      entry u ''mission8'' ''Make loud sound (clap)'' (runOf u ''mission8''),
      entry u ''mission9'' ''Face present'' mission9,
      entry u ''mission10'' ''Ambient light sensor (if available)'' (runOf u ''mission10''),
      entry u ''mission11'' ''Rotate phone (landscape)'' (runOf u ''mission11''),
      entry u ''mission12'' ''Geolocation available'' (runOf u ''mission12''),
      entry u ''mission13'' ''Place phone face-down'' (runOf u ''mission13''),
      entry u ''mission14'' ''Silent selfie'' mission14,
      entry u ''mission15'' ''Cover camera'' (runOf u ''mission15''),
      entry u ''mission16'' ''Shake device'' (runOf u ''mission16''),
      entry u ''mission17'' ''Point at bright light'' (runOf u ''mission17''),
      entry u ''mission18'' ''Whisper name'' mission18,
      entry u ''mission19'' ''Walk more (40 events)'' (runOf u ''mission19''),
      entry u ''mission20'' ''Blink detection (heuristic)'' mission20,
      entry u ''mission21'' ''Long silence 10s'' (runOf u ''mission21''),
      entry u ''mission22'' ''Shout loudly'' (runOf u ''mission22''),
      entry u ''mission23'' ''Turn head left or right'' mission23,
      entry u ''mission24'' ''Move a short distance (GPS)'' mission24,
      entry u ''mission25'' ''Detect red object'' (runOf u ''mission25''),
      entry u ''mission26'' ''Cover then uncover camera'' (runOf u ''mission26''),
      entry u ''mission27'' ''Play music for 5s'' (runOf u ''mission27''),
      entry u ''mission28'' ''Rotate device quickly'' (runOf u ''mission28''),
      entry u ''mission29'' ''High-contrast pattern'' mission29,
      entry u ''mission30'' ''Detect green'' (runOf u ''mission30''),
      entry u ''mission31'' ''Cover camera long'' (runOf u ''mission31''),
      entry u ''mission32'' ''Smile (best-effort)'' mission32,
      entry u ''mission33'' ''Two claps'' (runOf u ''mission33''),
      entry u ''mission34'' ''Torch blink'' (runOf u ''mission34''),
      entry u ''mission35'' ''Slow rotation'' (runOf u ''mission35''),
      entry u ''mission36'' ''Whistle'' (runOf u ''mission36''),
      entry u ''mission37'' ''Head left then right'' mission37,
      entry u ''mission38'' ''Clap then silence'' mission38,
      entry u ''mission39'' ''Rapid steps (burst)'' (runOf u ''mission39''),
      entry u ''mission40'' ''Final composite'' mission40]"

definition runMissionById :: "others \<Rightarrow> platform \<Rightarrow> string \<Rightarrow> state \<Rightarrow> state" where
  "runMissionById u p mid st =
     (case find (\<lambda>x. mission_id x = mid) (missions u) of
        None \<Rightarrow> println [Txt ''Mission not found.''] st
      | Some m \<Rightarrow>
          (let st1 = println [Txt ''--- '', Txt (mission_id m), Txt '' : '', Txt (title m),
                              Txt '' ---''] st;
               st2 = println [Txt (desc m)] st1;
               st3 = (case run m p st2 of
                        (Inr ok, s) \<Rightarrow>
                          if ok then addScore 10 (println [Txt ''Reward: +10''] s)
                          else (let pen = (if mission_id m = ''mission40'' then - 10 else - 5)
                                in addScore pen (println [Txt ''Punishment: '', Num pen] s))
                      | (Inl e, s) \<Rightarrow> println [Txt ''Mission error: '', Err e] s)
           in println [Txt ''Score now: '', Num (score st3)] st3))"

section \<open>Definitions used by the statements\<close>

text \<open>One sample of \<open>measureBrightness\<close>: the sum of the pixel loop over the canvas area.\<close>

definition frameLuminance :: "nat \<Rightarrow> nat \<Rightarrow> byte list \<Rightarrow> real" where
  "frameLuminance w h img = lumSum 0 img / real (w * h)"

text \<open>The state in which the sampling loops start: stream acquired, canvas sized.\<close>

definition cameraReady :: "platform \<Rightarrow> state \<Rightarrow> state" where
  "cameraReady p st =
     (snd (ensureCamera p st))\<lparr>canvasWidth := dimOr (videoWidth p) 320,
                                canvasHeight := dimOr (videoHeight p) 240\<rparr>"

definition cameraUsable :: "platform \<Rightarrow> state \<Rightarrow> bool" where
  "cameraUsable p st = (cameraStream st \<or> cameraGrant p)"

definition micUsable :: "platform \<Rightarrow> state \<Rightarrow> bool" where
  "micUsable p st =
     (micStream st \<and> micAnalyser st \<and> micDataArray st
      \<or> \<not> micStream st \<and> micGrant p \<and> webAudio p = AudioWorks)"

text \<open>\<open>micDataArray\<close> has \<open>frequencyBinCount\<close> bytes, half of \<open>fftSize = 1024\<close>.\<close>

definition frequencyBinCount :: nat where
  "frequencyBinCount = 1024 div 2"

text \<open>The readings a run of \<open>n\<close> samples takes from the platform, in order.\<close>

definition sampledFrames :: "platform \<Rightarrow> state \<Rightarrow> nat \<Rightarrow> byte list list" where
  "sampledFrames p st n = map (\<lambda>k. frames p (framesRead st + k)) [0..<n]"

definition sampledBuffers :: "platform \<Rightarrow> state \<Rightarrow> nat \<Rightarrow> byte list list" where
  "sampledBuffers p st n = map (\<lambda>k. audio p (buffersRead st + k)) [0..<n]"

text \<open>
  The reducers as the specification words them: the window's sample count, the mean
  luminance of pixel-buffer readings, the root mean square of audio readings.
\<close>

definition spec_sampleCount :: "real \<Rightarrow> real \<Rightarrow> int" where
  "spec_sampleCount durationMs intervalMs = max 1 \<lfloor>durationMs / intervalMs\<rfloor>"

fun pixels :: "byte list \<Rightarrow> (byte \<times> byte \<times> byte) list" where
  "pixels (r # g # b # a # rest) = (r, g, b) # pixels rest"
| "pixels _ = []"

definition spec_pixelLuminance :: "byte \<times> byte \<times> byte \<Rightarrow> real" where
  "spec_pixelLuminance px =
     (case px of (r, g, b) \<Rightarrow>
        0.2126 * real (unat r) + 0.7152 * real (unat g) + 0.0722 * real (unat b))"

definition spec_readingLuminance :: "byte list \<Rightarrow> real" where
  "spec_readingLuminance img =
     (\<Sum>px\<leftarrow>pixels img. spec_pixelLuminance px) / real (length (pixels img))"

definition spec_meanLuminance :: "byte list list \<Rightarrow> real" where
  "spec_meanLuminance readings =
     (\<Sum>img\<leftarrow>readings. spec_readingLuminance img) / real (length readings)"

definition spec_normalize :: "byte \<Rightarrow> real" where
  "spec_normalize b = (real (unat b) - 128) / 128"

definition spec_rms :: "byte list \<Rightarrow> real" where
  "spec_rms buf = sqrt ((\<Sum>b\<leftarrow>buf. (spec_normalize b)\<^sup>2) / real (length buf))"

definition spec_soundRMS :: "byte list list \<Rightarrow> real" where
  "spec_soundRMS readings = (\<Sum>buf\<leftarrow>readings. spec_rms buf) / real (length readings)"

text \<open>Every pixel of the data has red, green and blue equal to \<open>v\<close>.\<close>

fun uniformRGB :: "byte \<Rightarrow> byte list \<Rightarrow> bool" where
  "uniformRGB v [] = True"
| "uniformRGB v (r # g # b # a # rest) = (r = v \<and> g = v \<and> b = v \<and> uniformRGB v rest)"
| "uniformRGB v _ = False"

text \<open>
  The events of a dispatched sequence on which the counter moved, in order: the counted
  events.
\<close>

fun counted :: "(motion_event \<times> int) list \<Rightarrow> state \<Rightarrow> (motion_event \<times> int) list" where
  "counted [] st = []"
| "counted ((ev, t) # rest) st =
     (let st' = (if motionListening st then motionHandler ev t st else st)
      in (if motionCounts st' = motionCounts st then [] else [(ev, t)]) @ counted rest st')"

text \<open>The planar distance of the specification between two fixes, in metres.\<close>

definition spec_geoDisplacement :: "real \<Rightarrow> real \<Rightarrow> real \<Rightarrow> real \<Rightarrow> real" where
  "spec_geoDisplacement lat1 lon1 lat2 lon2 =
     sqrt (((lat2 - lat1) * 111000)\<^sup>2
           + ((lon2 - lon1) * 111000 * cos (lat1 * pi / 180))\<^sup>2)"

text \<open>
  The composite evaluator of the specification: sub-results are verdicts, the composite
  passes when every one of them passed and fails otherwise.
\<close>

datatype verdict = Passed | Failed | Unavailable

definition spec_composite :: "verdict list \<Rightarrow> verdict" where
  "spec_composite subs = (if list_all (\<lambda>v. v = Passed) subs then Passed else Failed)"

text \<open>The verdicts of the sub-results: a face detection, a measured level, a count.\<close>

definition faceVerdict :: "face_result \<Rightarrow> verdict" where
  "faceVerdict res =
     (case res of
        NotAvailable \<Rightarrow> Unavailable
      | Available faces \<Rightarrow> if faces \<noteq> [] then Passed else Failed)"

definition levelVerdict :: "(real \<Rightarrow> bool) \<Rightarrow> real option \<Rightarrow> verdict" where
  "levelVerdict cmp m =
     (case m of None \<Rightarrow> Unavailable | Some v \<Rightarrow> if cmp v then Passed else Failed)"

definition countVerdict :: "nat \<Rightarrow> nat \<Rightarrow> verdict" where
  "countVerdict least n = (if least \<le> n then Passed else Failed)"

section \<open>Concrete inputs\<close>

definition fresh :: state where
  "fresh = \<lparr>score = 0, cameraStream = False, camVideoSrc = False, micStream = False,
            audioContext = False, micAnalyser = False, micDataArray = False,
            motionActive = False, motionListening = False, motionCounts = 0,
            lastMotionTimestamp = 0, canvasWidth = 300, canvasHeight = 150,
            outputText = [], perms = [], framesRead = 0, buffersRead = 0,
            detectCalls = 0, geoCalls = 0\<rparr>"

definition solidFrame :: "nat \<Rightarrow> byte \<Rightarrow> byte \<Rightarrow> byte \<Rightarrow> byte \<Rightarrow> byte list" where
  "solidFrame n r g b a = concat (replicate n [r, g, b, a])"

text \<open>A platform that refuses everything; its canvas reads as transparent black.\<close>

definition refusing :: platform where
  "refusing = \<lparr>cameraGrant = False, micGrant = False, webAudio = AudioWorks,
               faceDetectorAvailable = False,
               videoWidth = 0, videoHeight = 0,
               frames = (\<lambda>k. solidFrame (320 * 240) 0 0 0 0),
               audio = (\<lambda>k. replicate 512 128),
               detections = (\<lambda>k. []),
               motionPermission = Refused, motionEvents = [],
               geoFixes = (\<lambda>k. None)\<rparr>"

definition dark_room :: platform where
  "dark_room = refusing\<lparr>cameraGrant := True, videoWidth := 640, videoHeight := 480,
                         frames := (\<lambda>k. solidFrame (640 * 480) 0 0 0 255)\<rparr>"

definition bright_room :: platform where
  "bright_room = refusing\<lparr>cameraGrant := True, videoWidth := 640, videoHeight := 480,
                           frames := (\<lambda>k. solidFrame (640 * 480) 255 255 255 255)\<rparr>"

definition quiet_room :: platform where
  "quiet_room = refusing\<lparr>micGrant := True\<rparr>"

definition moved :: "real \<Rightarrow> real \<Rightarrow> real \<Rightarrow> motion_event" where
  "moved x y z =
     \<lparr>accelerationIncludingGravity = Some \<lparr>ax = Some x, ay = Some y, az = Some z\<rparr>,
      acceleration = None\<rparr>"

text \<open>Three strong events 200 ms apart: the second falls inside the debounce gap.\<close>

definition shaking :: platform where
  "shaking = refusing\<lparr>motionPermission := NotRequired,
                        motionEvents := [(moved 0 0 13, 1000), (moved 0 0 13, 1200),
                                         (moved 0 0 13, 1400)]\<rparr>"

text \<open>Two fixes on the equator meridian, 0.0001 degrees of latitude apart.\<close>

definition equator_walk :: platform where
  "equator_walk = refusing\<lparr>geoFixes := (\<lambda>k. if k = 0 then Some \<lparr>latitude = 0, longitude = 0\<rparr>
                                               else Some \<lparr>latitude = 0.0001, longitude = 0\<rparr>)\<rparr>"

text \<open>A microphone buffer of 512 bytes: two samples at level \<open>d\<close>, silence after them.\<close>

definition tone :: "byte \<Rightarrow> byte list" where
  "tone d = d # d # replicate 510 128"

text \<open>
  A whisper whose fifteen buffers average exactly 0.05: fourteen of root mean square
  102/2048, one of 108/2048.
\<close>

definition whisper_edge :: platform where
  "whisper_edge = refusing\<lparr>micGrant := True,
                            audio := (\<lambda>k. if k < 14 then tone 230 else tone 236)\<rparr>"

definition whisper :: platform where
  "whisper = refusing\<lparr>micGrant := True, audio := (\<lambda>k. tone 230)\<rparr>"

text \<open>A device on which the final composite succeeds, and the same with the microphone refused.\<close>

definition final_ok :: platform where
  "final_ok = refusing\<lparr>cameraGrant := True, micGrant := True, faceDetectorAvailable := True,
                        audio := (\<lambda>k. replicate 512 255),
                        detections := (\<lambda>k. [Detected [\<lparr>box_x = 100, box_y = 80,
                                                       box_width = 60, box_height = 60\<rparr>]]),
                        motionPermission := NotRequired,
                        motionEvents := [(moved 0 0 13, 1000), (moved 0 0 13, 1200),
                                         (moved 0 0 13, 1400)]\<rparr>"

definition final_no_mic :: platform where
  "final_no_mic = final_ok\<lparr>micGrant := False\<rparr>"

text \<open>A browser without the FaceDetector interface whose camera works.\<close>

definition webcam_only :: platform where
  "webcam_only = refusing\<lparr>cameraGrant := True, videoWidth := 640, videoHeight := 480,
                           frames := (\<lambda>k. solidFrame (640 * 480) 90 90 90 255)\<rparr>"

text \<open>Descriptions and bodies for the catalogue entries that are parameters.\<close>

definition plain_others :: others where
  "plain_others = \<lparr>descOf = (\<lambda>i. []), runOf = (\<lambda>i p st. (Inr False, st))\<rparr>"

text \<open>
  A browser that grants the microphone but has no Web Audio: the construction of the
  \<open>AudioContext\<close> throws.
\<close>

definition no_web_audio :: platform where
  "no_web_audio = refusing\<lparr>micGrant := True, webAudio := ContextThrows\<rparr>"

section \<open>The sampling loops\<close>

lemma brightnessLoop_eq:
  "brightnessLoop p n (tot, cnt, st) =
     (tot + (\<Sum>k<n. frameLuminance (canvasWidth st) (canvasHeight st)
                        (frames p (framesRead st + k))),
      cnt + n, st\<lparr>framesRead := framesRead st + n\<rparr>)"
proof (induction n arbitrary: tot cnt st)
  case 0
  show ?case by simp
next
  case (Suc n)
  show ?case
    by (simp add: getImageData_def Suc.IH frameLuminance_def sum.lessThan_Suc_shift
             del: sum.lessThan_Suc)
qed

lemma soundLoop_eq:
  "soundLoop p n (tot, cnt, st) =
     (tot + (\<Sum>k<n. bufferRms (audio p (buffersRead st + k))),
      cnt + n, st\<lparr>buffersRead := buffersRead st + n\<rparr>)"
proof (induction n arbitrary: tot cnt st)
  case 0
  show ?case by simp
next
  case (Suc n)
  show ?case
    by (simp add: getByteTimeDomainData_def Suc.IH sum.lessThan_Suc_shift
             del: sum.lessThan_Suc)
qed

lemma ensureMic_frame:
  "motionActive (snd (ensureMic p st)) = motionActive st
   \<and> detectCalls (snd (ensureMic p st)) = detectCalls st
   \<and> buffersRead (snd (ensureMic p st)) = buffersRead st
   \<and> score (snd (ensureMic p st)) = score st"
  by (simp add: ensureMic_def println_def updatePerms_def Let_def split: web_audio.split)

lemma measureBrightness_eq:
  assumes "cameraUsable p st" and "sampleCount durationMs sampleInterval = Some n"
  shows "measureBrightness p durationMs sampleInterval st =
     (Inr (Some ((\<Sum>k<n. frameLuminance (dimOr (videoWidth p) 320) (dimOr (videoHeight p) 240)
                        (frames p (framesRead st + k))) / real n)),
      (cameraReady p st)\<lparr>framesRead := framesRead st + n\<rparr>)"
  using assms
  by (auto simp add: measureBrightness_def ensureCamera_def brightnessLoop_eq cameraReady_def
      updatePerms_def cameraUsable_def)

lemma measureBrightness_null:
  assumes "\<not> cameraStream st" and "\<not> cameraGrant p"
  shows "measureBrightness p durationMs sampleInterval st =
     (Inr None, println [Txt ''Error: camera permission denied or unavailable.''] st)"
  using assms by (simp add: measureBrightness_def ensureCamera_def)

lemma measureSoundLevel_eq:
  assumes "micUsable p st"
      and "sampleCount durationMs sampleInterval = Some n"
  shows "measureSoundLevel p durationMs sampleInterval st =
     (Inr (Some ((\<Sum>k<n. bufferRms (audio p (buffersRead st + k))) / real n)),
      (snd (ensureMic p st))\<lparr>buffersRead := buffersRead st + n\<rparr>)"
  using assms
  by (auto simp add: measureSoundLevel_def ensureMic_def soundLoop_eq updatePerms_def micUsable_def
        Let_def)

lemma measureSoundLevel_null:
  assumes "\<not> micStream st" and "\<not> micGrant p"
  shows "measureSoundLevel p durationMs sampleInterval st =
     (Inr None, println [Txt ''Error: microphone permission denied or unavailable.''] st)"
  using assms by (simp add: measureSoundLevel_def ensureMic_def)

section \<open>Luminance\<close>

lemma dimOr_pos: "0 < d \<Longrightarrow> 0 < dimOr v d"
  by (simp add: dimOr_def)

lemma weights_bounds:
  fixes x y z :: real
  assumes "0 \<le> x" "x \<le> 255" "0 \<le> y" "y \<le> 255" "0 \<le> z" "z \<le> 255"
  shows "0 \<le> 0.2126 * x + 0.7152 * y + 0.0722 * z
         \<and> 0.2126 * x + 0.7152 * y + 0.0722 * z \<le> 255"
  using assms by simp

lemma byte_bounds: "0 \<le> real (unat (b :: byte)) \<and> real (unat b) \<le> 255"
proof -
  have "unat b < 256"
    using unsigned_less [of b, where ?'a = nat] by simp
  then have "real (unat b) \<le> 255"
    by linarith
  moreover have "0 \<le> real (unat b)"
    by (rule of_nat_0_le_iff)
  ultimately show ?thesis by blast
qed

lemma luminance_bounds: "0 \<le> luminance r g b \<and> luminance r g b \<le> 255"
  unfolding luminance_def
  using byte_bounds [of r] byte_bounds [of g] byte_bounds [of b]
  by (intro weights_bounds) blast+

lemma lumSum_pixels: "lumSum sm img = sm + (\<Sum>px\<leftarrow>pixels img. spec_pixelLuminance px)"
  by (induction sm img rule: lumSum.induct) (simp_all add: spec_pixelLuminance_def luminance_def)

lemma length_pixels: "length (pixels img) = length img div 4"
  by (induction img rule: pixels.induct) simp_all

lemma lumSum_bounds: "sm \<le> lumSum sm img \<and> lumSum sm img \<le> sm + 255 * real (length img div 4)"
proof (induction sm img rule: lumSum.induct)
  case (1 sm r g b a rest)
  then show ?case using luminance_bounds [of r g b] by (simp add: algebra_simps)
qed simp_all

lemma lumSum_uniform:
  "uniformRGB v img \<Longrightarrow> lumSum sm img = sm + real (length img div 4) * real (unat v)"
  by (induction sm img rule: lumSum.induct) (simp_all add: luminance_def algebra_simps)

lemma frameLuminance_spec:
  "length img = 4 * (w * h) \<Longrightarrow> frameLuminance w h img = spec_readingLuminance img"
  by (simp add: frameLuminance_def spec_readingLuminance_def lumSum_pixels length_pixels)

lemma frameLuminance_bounds:
  assumes "length img = 4 * (w * h)" and "0 < w * h"
  shows "0 \<le> frameLuminance w h img \<and> frameLuminance w h img \<le> 255"
proof -
  have "0 \<le> lumSum 0 img" "lumSum 0 img \<le> 255 * real (w * h)"
    using lumSum_bounds [of 0 img] assms by simp_all
  moreover have "0 < real (w * h)" using assms by simp
  ultimately show ?thesis
    unfolding frameLuminance_def by (simp add: divide_le_eq)
qed

lemma frameLuminance_uniform:
  assumes "length img = 4 * (w * h)" and "0 < w * h" and "uniformRGB v img"
  shows "frameLuminance w h img = real (unat v)"
  using assms by (simp add: frameLuminance_def lumSum_uniform)

lemma sum_list_upt: "(\<Sum>k\<leftarrow>[0..<n]. f k) = (\<Sum>k<n. f k)"
  by (simp add: interv_sum_list_conv_sum_set_nat atLeast0LessThan)

lemma mean_bounds:
  fixes f :: "nat \<Rightarrow> real"
  assumes "\<And>k. 0 \<le> f k \<and> f k \<le> c" and "0 < n"
  shows "0 \<le> (\<Sum>k<n. f k) / real n \<and> (\<Sum>k<n. f k) / real n \<le> c"
proof -
  have "0 \<le> (\<Sum>k<n. f k)"
    using assms(1) by (simp add: sum_nonneg)
  moreover have "(\<Sum>k<n. f k) \<le> real n * c"
    using sum_bounded_above [of "{..<n}" f c] assms(1) by simp
  ultimately show ?thesis
    using assms(2) by (simp add: divide_le_eq mult.commute)
qed

lemma spec_meanLuminance_window:
  "spec_meanLuminance (sampledFrames p st n) =
     (\<Sum>k<n. spec_readingLuminance (frames p (framesRead st + k))) / real n"
  by (simp add: spec_meanLuminance_def sampledFrames_def comp_def sum_list_upt)

lemma sampleCount_spec:
  assumes "0 < sampleInterval"
  shows "sampleCount durationMs sampleInterval =
           Some (nat (spec_sampleCount durationMs sampleInterval))"
    and "0 < nat (spec_sampleCount durationMs sampleInterval)"
  using assms by (simp_all add: sampleCount_def spec_sampleCount_def)

lemma sampleCount_2000_250: "sampleCount 2000 250 = Some 8"
  by (simp add: sampleCount_def)

lemma mission1_measured:
  assumes "measureBrightness p 2000 250
             (println [Txt ''Measuring ambient brightness using camera...''] st) = (Inr (Some lum), st')"
  shows "fst (mission1 p st) = Inr (lum < 35)"
  using assms by (simp add: mission1_def Let_def)

section \<open>The sampling window\<close>

text \<open>
  C1. For a window with positive duration and interval, the sampling loop of
  \<open>measureBrightness\<close> and of \<open>measureSoundLevel\<close> takes exactly
  \<open>max(1, floor(durationMs / intervalMs))\<close> readings from the platform, counts as many,
  and the result is the accumulated total divided by that count, which is at least 1.
\<close>

theorem sampling_window_count:
  assumes "0 < durationMs" and "0 < sampleInterval"
  shows "let n = nat (spec_sampleCount durationMs sampleInterval) in
         sampleCount durationMs sampleInterval = Some n \<and> 1 \<le> n
       \<and> int n = spec_sampleCount durationMs sampleInterval
       \<and> (cameraUsable p st \<longrightarrow>
            (\<exists>tot st'. brightnessLoop p n (0, 0, cameraReady p st) = (tot, n, st')
               \<and> framesRead st' = framesRead st + n
               \<and> measureBrightness p durationMs sampleInterval st
                   = (Inr (Some (tot / real n)), st')))
       \<and> (micUsable p st \<longrightarrow>
            (\<exists>tot st'. soundLoop p n (0, 0, snd (ensureMic p st)) = (tot, n, st')
               \<and> buffersRead st' = buffersRead st + n
               \<and> measureSoundLevel p durationMs sampleInterval st
                   = (Inr (Some (tot / real n)), st')))"
proof -
  define n where "n = nat (spec_sampleCount durationMs sampleInterval)"
  have cnt: "sampleCount durationMs sampleInterval = Some n" and pos: "0 < n"
    using sampleCount_spec [OF assms(2), of durationMs] by (simp_all add: n_def)
  have fr: "framesRead (snd (ensureCamera p st)) = framesRead st"
    by (simp add: ensureCamera_def println_def updatePerms_def)
  have br: "buffersRead (snd (ensureMic p st)) = buffersRead st"
    by (simp add: ensureMic_frame)
  have cam: "\<exists>tot st'. brightnessLoop p n (0, 0, cameraReady p st) = (tot, n, st')
               \<and> framesRead st' = framesRead st + n
               \<and> measureBrightness p durationMs sampleInterval st
                   = (Inr (Some (tot / real n)), st')" if "cameraUsable p st"
    using measureBrightness_eq [OF that cnt]
    by (simp add: brightnessLoop_eq fr cameraReady_def)
  have mic: "\<exists>tot st'. soundLoop p n (0, 0, snd (ensureMic p st)) = (tot, n, st')
               \<and> buffersRead st' = buffersRead st + n
               \<and> measureSoundLevel p durationMs sampleInterval st
                   = (Inr (Some (tot / real n)), st')" if "micUsable p st"
    using measureSoundLevel_eq [OF that cnt]
    by (simp add: soundLoop_eq br)
  have int: "int n = spec_sampleCount durationMs sampleInterval"
    by (simp add: n_def spec_sampleCount_def)
  show ?thesis
    unfolding Let_def n_def [symmetric] using cnt pos int cam mic by simp
qed

theorem sampling_window_count_witness:
  "(0::real) < 2000 \<and> (0::real) < 250 \<and> cameraUsable dark_room fresh \<and> micUsable quiet_room fresh
   \<and> sampleCount 2000 250 = Some 8
   \<and> framesRead (snd (measureBrightness dark_room 2000 250 fresh)) = 8
   \<and> buffersRead (snd (measureSoundLevel quiet_room 2000 250 fresh)) = 8"
proof -
  have cam: "cameraUsable dark_room fresh"
    by (simp add: cameraUsable_def dark_room_def)
  have mic: "micUsable quiet_room fresh"
    by (simp add: micUsable_def quiet_room_def refusing_def fresh_def)
  have n: "nat (spec_sampleCount 2000 250) = 8"
    by (simp add: spec_sampleCount_def)
  have fr: "framesRead fresh = 0" "buffersRead fresh = 0"
    by (simp_all add: fresh_def)
  show ?thesis
    using sampling_window_count [where durationMs = 2000 and sampleInterval = 250
                                   and p = dark_room and st = fresh]
          sampling_window_count [where durationMs = 2000 and sampleInterval = 250
                                   and p = quiet_room and st = fresh]
          cam mic
    by (auto simp add: Let_def n fr)
qed

section \<open>The reducers of brightness and sound\<close>

lemma squareSum_spec: "squareSum sm data = sm + (\<Sum>b\<leftarrow>data. (spec_normalize b)\<^sup>2)"
  by (induction data arbitrary: sm) (simp_all add: spec_normalize_def power2_eq_square Let_def)

lemma bufferRms_spec: "bufferRms data = spec_rms data"
  by (simp add: bufferRms_def spec_rms_def squareSum_spec)

lemma spec_soundRMS_window:
  "spec_soundRMS (sampledBuffers p st n) =
     (\<Sum>k<n. spec_rms (audio p (buffersRead st + k))) / real n"
  by (simp add: spec_soundRMS_def sampledBuffers_def comp_def sum_list_upt)

lemma spec_rms_silence:
  assumes "set buf \<subseteq> {128}"
  shows "spec_rms buf = 0"
proof -
  have "(\<Sum>b\<leftarrow>buf. (spec_normalize b)\<^sup>2) = 0"
    using assms by (induction buf) (simp_all add: spec_normalize_def)
  then show ?thesis
    by (simp add: spec_rms_def)
qed

lemma length_solidFrame: "length (solidFrame n r g b a) = 4 * n"
  by (induction n) (simp_all add: solidFrame_def)

lemma uniformRGB_solidFrame: "uniformRGB v (solidFrame n v v v a)"
  by (induction n) (simp_all add: solidFrame_def)

text \<open>
  C3. With the camera available and pixel buffers of the canvas size, \<open>measureBrightness\<close>
  returns the mean over its readings of the per-reading mean of
  \<open>0.2126 R + 0.7152 G + 0.0722 B\<close>, a value in [0, 255]. On all-black frames the value
  is 0 and mission 1 (window 2000/250, pass below 35) passes; on all-white frames it is
  255 and mission 1 fails.
\<close>

theorem mean_luminance_reducer:
  assumes cam: "cameraUsable p st"
      and len: "\<forall>k. length (frames p k) = 4 * (dimOr (videoWidth p) 320 * dimOr (videoHeight p) 240)"
      and win: "0 < durationMs" "0 < sampleInterval"
  shows "(\<exists>v st'. measureBrightness p durationMs sampleInterval st = (Inr (Some v), st')
            \<and> v = spec_meanLuminance
                    (sampledFrames p st (nat (spec_sampleCount durationMs sampleInterval)))
            \<and> 0 \<le> v \<and> v \<le> 255)
       \<and> ((\<forall>k. uniformRGB 0 (frames p k)) \<longrightarrow>
            fst (measureBrightness p durationMs sampleInterval st) = Inr (Some 0)
            \<and> fst (mission1 p st) = Inr True)
       \<and> ((\<forall>k. uniformRGB 255 (frames p k)) \<longrightarrow>
            fst (measureBrightness p durationMs sampleInterval st) = Inr (Some 255)
            \<and> fst (mission1 p st) = Inr False)"
proof -
  define w where "w = dimOr (videoWidth p) 320"
  define h where "h = dimOr (videoHeight p) 240"
  define n where "n = nat (spec_sampleCount durationMs sampleInterval)"
  define f where "f = (\<lambda>k. frameLuminance w h (frames p (framesRead st + k)))"
  have area: "0 < w * h"
    by (simp add: w_def h_def dimOr_pos)
  have len': "length (frames p k) = 4 * (w * h)" for k
    using len by (simp add: w_def h_def)
  have cnt: "sampleCount durationMs sampleInterval = Some n" and pos: "0 < n"
    using sampleCount_spec [OF win(2), of durationMs] by (simp_all add: n_def)
  have run: "measureBrightness p d i s = (Inr (Some ((\<Sum>k<m. frameLuminance w h
                 (frames p (framesRead s + k))) / real m)),
               (cameraReady p s)\<lparr>framesRead := framesRead s + m\<rparr>)"
    if "cameraUsable p s" and "sampleCount d i = Some m" for d i s m
    using measureBrightness_eq [OF that] by (simp add: w_def h_def)
  have spec: "(\<Sum>k<n. f k) / real n = spec_meanLuminance (sampledFrames p st n)"
    by (simp add: f_def spec_meanLuminance_window frameLuminance_spec [OF len'])
  have bounds: "0 \<le> (\<Sum>k<n. f k) / real n \<and> (\<Sum>k<n. f k) / real n \<le> 255"
    using frameLuminance_bounds [OF len' area] pos
    by (intro mean_bounds) (simp_all add: f_def)
  have first: "\<exists>v st'. measureBrightness p durationMs sampleInterval st = (Inr (Some v), st')
            \<and> v = spec_meanLuminance (sampledFrames p st n) \<and> 0 \<le> v \<and> v \<le> 255"
    using run [OF cam cnt] spec bounds by (simp add: f_def)
  let ?st1 = "println [Txt ''Measuring ambient brightness using camera...''] st"
  have cam1: "cameraUsable p ?st1"
    using cam by (simp add: cameraUsable_def println_def)
  have uniform: "fst (measureBrightness p durationMs sampleInterval st) = Inr (Some (real (unat v)))
                 \<and> fst (mission1 p st) = Inr (real (unat v) < 35)"
    if u: "\<forall>k. uniformRGB v (frames p k)" for v
  proof -
    have each: "frameLuminance w h (frames p k) = real (unat v)" for k
      using frameLuminance_uniform [OF len' area] u by simp
    have a: "fst (measureBrightness p durationMs sampleInterval st) = Inr (Some (real (unat v)))"
      using run [OF cam cnt] pos by (simp add: each)
    have "measureBrightness p 2000 250 ?st1 =
            (Inr (Some (real (unat v))), (cameraReady p ?st1)\<lparr>framesRead := framesRead ?st1 + 8\<rparr>)"
      using run [OF cam1 sampleCount_2000_250] by (simp add: each)
    then have "fst (mission1 p st) = Inr (real (unat v) < 35)"
      by (rule mission1_measured)
    with a show ?thesis by simp
  qed
  show ?thesis
    using first uniform [of 0] uniform [of 255] by (simp add: n_def)
qed

theorem mean_luminance_reducer_witness:
  "cameraUsable dark_room fresh \<and> cameraUsable bright_room fresh
   \<and> fst (measureBrightness dark_room 2000 250 fresh) = Inr (Some 0)
   \<and> fst (mission1 dark_room fresh) = Inr True
   \<and> fst (measureBrightness bright_room 2000 250 fresh) = Inr (Some 255)
   \<and> fst (mission1 bright_room fresh) = Inr False"
proof -
  have cam: "cameraUsable dark_room fresh" "cameraUsable bright_room fresh"
    by (simp_all add: cameraUsable_def dark_room_def bright_room_def)
  have len: "\<forall>k. length (frames dark_room k)
               = 4 * (dimOr (videoWidth dark_room) 320 * dimOr (videoHeight dark_room) 240)"
            "\<forall>k. length (frames bright_room k)
               = 4 * (dimOr (videoWidth bright_room) 320 * dimOr (videoHeight bright_room) 240)"
    by (simp_all add: dark_room_def bright_room_def dimOr_def length_solidFrame)
  have black: "\<forall>k. uniformRGB 0 (frames dark_room k)"
    by (simp add: dark_room_def uniformRGB_solidFrame)
  have white: "\<forall>k. uniformRGB 255 (frames bright_room k)"
    by (simp add: bright_room_def uniformRGB_solidFrame)
  have win: "(0::real) < 2000" "(0::real) < 250"
    by simp_all
  show ?thesis
    using mean_luminance_reducer [OF cam(1) len(1) win] mean_luminance_reducer [OF cam(2) len(2) win]
          black white cam
    by simp
qed

text \<open>
  C4. With the microphone available, \<open>measureSoundLevel\<close> returns the mean over its
  readings of the root mean square of the samples \<open>(byte - 128) / 128\<close> of each buffer;
  when every buffer holds only the byte 128 the result is exactly 0.
\<close>

theorem sound_rms_reducer:
  assumes mic: "micUsable p st"
      and len: "\<forall>k. length (audio p k) = frequencyBinCount"
      and win: "0 < durationMs" "0 < sampleInterval"
  shows "(\<exists>v st'. measureSoundLevel p durationMs sampleInterval st = (Inr (Some v), st')
            \<and> v = spec_soundRMS
                    (sampledBuffers p st (nat (spec_sampleCount durationMs sampleInterval))))
       \<and> ((\<forall>k. set (audio p k) \<subseteq> {128}) \<longrightarrow>
            fst (measureSoundLevel p durationMs sampleInterval st) = Inr (Some 0))"
proof -
  define n where "n = nat (spec_sampleCount durationMs sampleInterval)"
  have cnt: "sampleCount durationMs sampleInterval = Some n" and pos: "0 < n"
    using sampleCount_spec [OF win(2), of durationMs] by (simp_all add: n_def)
  have run: "measureSoundLevel p durationMs sampleInterval st =
     (Inr (Some ((\<Sum>k<n. spec_rms (audio p (buffersRead st + k))) / real n)),
      (snd (ensureMic p st))\<lparr>buffersRead := buffersRead st + n\<rparr>)"
    using measureSoundLevel_eq [OF mic cnt] by (simp add: bufferRms_spec)
  have first: "\<exists>v st'. measureSoundLevel p durationMs sampleInterval st = (Inr (Some v), st')
            \<and> v = spec_soundRMS (sampledBuffers p st n)"
    using run by (simp add: spec_soundRMS_window)
  have silent: "fst (measureSoundLevel p durationMs sampleInterval st) = Inr (Some 0)"
    if "\<forall>k. set (audio p k) \<subseteq> {128}"
    using run that by (simp add: spec_rms_silence)
  show ?thesis
    using first silent by (simp add: n_def)
qed

theorem sound_rms_reducer_witness:
  "micUsable quiet_room fresh \<and> fst (measureSoundLevel quiet_room 6000 250 fresh) = Inr (Some 0)"
proof -
  have mic: "micUsable quiet_room fresh"
    by (simp add: micUsable_def quiet_room_def refusing_def fresh_def)
  have len: "\<forall>k. length (audio quiet_room k) = frequencyBinCount"
    by (simp add: quiet_room_def refusing_def frequencyBinCount_def)
  have silence: "\<forall>k. set (audio quiet_room k) \<subseteq> {128}"
    by (simp add: quiet_room_def refusing_def)
  have win: "(0::real) < 6000" "(0::real) < 250"
    by simp_all
  show ?thesis
    using sound_rms_reducer [OF mic len win] silence mic by simp
qed

section \<open>Motion counting\<close>

lemma twelve_less_sqrt: "12 < sqrt x \<longleftrightarrow> 144 < x"
proof -
  have "sqrt 144 = 12"
    by (rule real_sqrt_unique) simp_all
  then show ?thesis
    using real_sqrt_less_iff [of 144 x] by simp
qed

lemma motionHandler_step:
  "motionHandler ev t s =
     (if magnitude ev > 12 \<and> (lastMotionTimestamp s = 0 \<or> t - lastMotionTimestamp s > 300)
      then s\<lparr>motionCounts := motionCounts s + 1, lastMotionTimestamp := t\<rparr> else s)"
  by (simp add: motionHandler_def Let_def)

lemma dispatch_counts:
  "motionCounts (dispatchMotion evs st) = motionCounts st + length (counted evs st)"
proof (induction evs arbitrary: st)
  case Nil
  show ?case by simp
next
  case (Cons e evs)
  obtain ev t where e: "e = (ev, t)" by (cases e)
  show ?case
    by (simp add: e Cons.IH Let_def motionHandler_step)
qed

lemma counted_subset: "set (counted evs st) \<subseteq> set evs"
proof (induction evs arbitrary: st)
  case Nil
  show ?case by simp
next
  case (Cons e evs)
  obtain ev t where e: "e = (ev, t)" by (cases e)
  show ?case
    using Cons.IH by (auto simp add: e Let_def)
qed

lemma counted_magnitude: "c \<in> set (counted evs st) \<Longrightarrow> magnitude (fst c) > 12"
proof (induction evs arbitrary: st)
  case Nil
  then show ?case by simp
next
  case (Cons e evs)
  obtain ev t where e: "e = (ev, t)" by (cases e)
  show ?case
    using Cons.prems Cons.IH
    by (auto simp add: e Let_def motionHandler_step split: if_splits)
qed

lemma counted_chain:
  assumes "\<forall>e\<in>set evs. 0 < snd e"
  shows "sorted_wrt (\<lambda>a b. snd b - snd a > 300) (counted evs st)
       \<and> (lastMotionTimestamp st \<noteq> 0 \<longrightarrow>
            (\<forall>c\<in>set (counted evs st). snd c - lastMotionTimestamp st > 300))"
  using assms
proof (induction evs arbitrary: st)
  case Nil
  show ?case by simp
next
  case (Cons e evs)
  obtain ev t where e: "e = (ev, t)" by (cases e)
  have t: "0 < t" using Cons.prems by (simp add: e)
  have rest: "\<forall>e\<in>set evs. 0 < snd e" using Cons.prems by simp
  note IH = Cons.IH [OF rest]
  show ?case
  proof (cases "motionListening st \<and> magnitude ev > 12
                 \<and> (lastMotionTimestamp st = 0 \<or> t - lastMotionTimestamp st > 300)")
    case True
    define st' where "st' = st\<lparr>motionCounts := motionCounts st + 1, lastMotionTimestamp := t\<rparr>"
    have c: "counted (e # evs) st = (ev, t) # counted evs st'"
      using True by (simp add: e Let_def motionHandler_step st'_def)
    have last: "lastMotionTimestamp st' = t" by (simp add: st'_def)
    have tail: "sorted_wrt (\<lambda>a b. snd b - snd a > 300) (counted evs st')"
      and gap: "\<forall>c\<in>set (counted evs st'). snd c - t > 300"
      using IH [of st'] t by (simp_all add: last)
    have "lastMotionTimestamp st \<noteq> 0 \<longrightarrow>
            (\<forall>c\<in>set ((ev, t) # counted evs st'). snd c - lastMotionTimestamp st > 300)"
      using True gap by fastforce
    then show ?thesis
      using tail gap by (simp add: c)
  next
    case False
    then have "counted (e # evs) st = counted evs st"
      by (auto simp add: e Let_def motionHandler_step)
    then show ?thesis
      using IH [of st] by simp
  qed
qed

text \<open>
  C5. The handler adds one to the counter exactly on an event of magnitude above 12 that
  is the first counted one or comes more than 300 ms after the last counted one, and
  leaves it alone otherwise. So over any sequence of events (with the positive timestamps
  of \<open>Date.now()\<close>) every counted event has magnitude above 12 and any two counted
  events are at least 300 ms apart. \<open>startMotionCounting\<close> sets the counter and the
  timestamp to zero, and the missions set the counter to zero again before they wait.
\<close>

theorem motion_event_counter:
  assumes "\<forall>e\<in>set evs. 0 < snd e"
  shows "let st = (startMotionCounting p st0)\<lparr>motionCounts := 0\<rparr>; cs = counted evs st in
         (\<not> motionActive st0 \<longrightarrow>
            motionCounts (startMotionCounting p st0) = 0
            \<and> lastMotionTimestamp (startMotionCounting p st0) = 0)
       \<and> motionCounts st = 0
       \<and> motionCounts (dispatchMotion evs st) = length cs
       \<and> set cs \<subseteq> set evs
       \<and> (\<forall>c\<in>set cs. magnitude (fst c) > 12)
       \<and> (\<forall>i j. i < j \<and> j < length cs \<longrightarrow> snd (cs ! j) - snd (cs ! i) \<ge> 300)
       \<and> motionCounts (motionHandler ev t s) =
           (if magnitude ev > 12 \<and> (lastMotionTimestamp s = 0 \<or> t - lastMotionTimestamp s > 300)
            then motionCounts s + 1 else motionCounts s)
       \<and> (motionCounts (motionHandler ev t s) \<noteq> motionCounts s \<longrightarrow>
            magnitude ev > 12 \<and> (lastMotionTimestamp s = 0 \<or> t - lastMotionTimestamp s \<ge> 300))"
proof -
  define st where "st = (startMotionCounting p st0)\<lparr>motionCounts := 0\<rparr>"
  define cs where "cs = counted evs st"
  have start: "\<not> motionActive st0 \<longrightarrow>
            motionCounts (startMotionCounting p st0) = 0
            \<and> lastMotionTimestamp (startMotionCounting p st0) = 0"
    by (simp add: startMotionCounting_def Let_def split: motion_permission.split)
  have zero: "motionCounts st = 0"
    by (simp add: st_def)
  have count: "motionCounts (dispatchMotion evs st) = length cs"
    using dispatch_counts [of evs st] by (simp add: zero cs_def)
  have sub: "set cs \<subseteq> set evs"
    by (simp add: cs_def counted_subset)
  have mag: "\<forall>c\<in>set cs. magnitude (fst c) > 12"
    by (simp add: cs_def counted_magnitude)
  have "sorted_wrt (\<lambda>a b. snd b - snd a > 300) cs"
    using counted_chain [OF assms, of st] by (simp add: cs_def)
  then have gaps: "\<forall>i j. i < j \<and> j < length cs \<longrightarrow> snd (cs ! j) - snd (cs ! i) \<ge> 300"
    by (fastforce simp add: sorted_wrt_iff_nth_less)
  have step: "motionCounts (motionHandler ev t s) =
           (if magnitude ev > 12 \<and> (lastMotionTimestamp s = 0 \<or> t - lastMotionTimestamp s > 300)
            then motionCounts s + 1 else motionCounts s)"
    by (simp add: motionHandler_step)
  have only: "motionCounts (motionHandler ev t s) \<noteq> motionCounts s \<longrightarrow>
            magnitude ev > 12 \<and> (lastMotionTimestamp s = 0 \<or> t - lastMotionTimestamp s \<ge> 300)"
    by (auto simp add: motionHandler_step split: if_splits)
  show ?thesis
    unfolding Let_def st_def [symmetric] cs_def [symmetric]
    using start zero count sub mag gaps step only by blast
qed

lemma magnitude_moved: "magnitude (moved x y z) = sqrt (x * x + y * y + z * z)"
  by (simp add: magnitude_def moved_def accelOf_def orZero_def)

theorem motion_event_counter_witness:
  "\<not> motionActive fresh
   \<and> motionCounts (startMotionCounting shaking fresh) = 0
   \<and> counted (motionEvents shaking) ((startMotionCounting shaking fresh)\<lparr>motionCounts := 0\<rparr>)
       = [(moved 0 0 13, 1000), (moved 0 0 13, 1400)]
   \<and> motionCounts (dispatchMotion (motionEvents shaking)
                     ((startMotionCounting shaking fresh)\<lparr>motionCounts := 0\<rparr>)) = 2"
proof -
  have pos: "\<forall>e\<in>set (motionEvents shaking). 0 < snd e"
    by (simp add: shaking_def)
  have idle: "\<not> motionActive fresh"
    by (simp add: fresh_def)
  have cs: "counted (motionEvents shaking) ((startMotionCounting shaking fresh)\<lparr>motionCounts := 0\<rparr>)
       = [(moved 0 0 13, 1000), (moved 0 0 13, 1400)]"
    by (simp add: shaking_def refusing_def fresh_def startMotionCounting_def Let_def
          motionHandler_step magnitude_moved twelve_less_sqrt)
  show ?thesis
    using motion_event_counter [OF pos, of shaking fresh] idle
    by (simp add: Let_def cs)
qed

section \<open>Geolocation\<close>

lemma geoDistance_spec:
  "geoDistance c1 c2 =
     spec_geoDisplacement (latitude c1) (longitude c1) (latitude c2) (longitude c2)"
  by (simp add: geoDistance_def spec_geoDisplacement_def Let_def power2_eq_square)

lemma geoDistance_same_longitude:
  assumes "longitude c2 = longitude c1"
  shows "geoDistance c1 c2 = \<bar>latitude c2 - latitude c1\<bar> * 111000"
proof -
  define d where "d = latitude c2 - latitude c1"
  have "geoDistance c1 c2 = sqrt ((d * 111000)\<^sup>2)"
    using assms by (simp add: geoDistance_def Let_def power2_eq_square d_def)
  also have "\<dots> = \<bar>d * 111000\<bar>"
    by (rule real_sqrt_abs)
  also have "\<dots> = \<bar>d\<bar> * 111000"
    by (simp add: abs_mult)
  finally show ?thesis
    by (simp only: d_def)
qed

lemma mission24_two_fixes:
  assumes "geoFixes p (geoCalls st) = Some c1" and "geoFixes p (geoCalls st + 1) = Some c2"
  shows "fst (mission24 p st) = Inr (geoDistance c1 c2 > 8)"
  using assms by (simp add: mission24_def getGeoPosition_def println_def Let_def)

text \<open>
  C6. Mission 24 compares with 8 the distance \<open>sqrt(dx\<^sup>2 + dy\<^sup>2)\<close> of its two fixes, where
  \<open>dx\<close> is the latitude difference times 111000 and \<open>dy\<close> the longitude difference times
  111000 times the cosine of the first latitude in radians. The distance of two identical
  fixes is 0; for two fixes on one meridian 0.0001 degrees of latitude apart (on the
  equator or elsewhere) it is within 1% of 11.1 metres.
\<close>

theorem geo_displacement_reducer:
  "geoDistance c1 c2 =
     spec_geoDisplacement (latitude c1) (longitude c1) (latitude c2) (longitude c2)
   \<and> (geoFixes p (geoCalls st) = Some c1 \<and> geoFixes p (geoCalls st + 1) = Some c2 \<longrightarrow>
        fst (mission24 p st) = Inr (geoDistance c1 c2 > 8))
   \<and> geoDistance c1 c1 = 0
   \<and> (longitude c2 = longitude c1 \<and> \<bar>latitude c2 - latitude c1\<bar> = 0.0001 \<longrightarrow>
        \<bar>geoDistance c1 c2 - 11.1\<bar> \<le> 0.01 * 11.1)"
proof -
  have "geoDistance c1 c1 = 0"
    by (simp add: geoDistance_def)
  moreover have "\<bar>geoDistance c1 c2 - 11.1\<bar> \<le> 0.01 * 11.1"
    if "longitude c2 = longitude c1" and "\<bar>latitude c2 - latitude c1\<bar> = 0.0001"
    using geoDistance_same_longitude [OF that(1)] that(2) by simp
  ultimately show ?thesis
    using geoDistance_spec [of c1 c2] mission24_two_fixes [of p st c1 c2] by blast
qed

theorem geo_displacement_reducer_witness:
  "geoDistance \<lparr>latitude = 0, longitude = 0\<rparr> \<lparr>latitude = 0.0001, longitude = 0\<rparr> = 11.1
   \<and> \<bar>geoDistance \<lparr>latitude = 0, longitude = 0\<rparr> \<lparr>latitude = 0.0001, longitude = 0\<rparr> - 11.1\<bar>
        \<le> 0.01 * 11.1
   \<and> fst (mission24 equator_walk fresh) = Inr True"
proof -
  have d: "geoDistance \<lparr>latitude = 0, longitude = 0\<rparr> \<lparr>latitude = 0.0001, longitude = 0\<rparr> = 11.1"
    using geoDistance_same_longitude
            [of "\<lparr>latitude = 0.0001, longitude = 0\<rparr>" "\<lparr>latitude = 0, longitude = 0\<rparr>"]
    by simp
  have fx: "geoFixes equator_walk (geoCalls fresh) = Some \<lparr>latitude = 0, longitude = 0\<rparr>"
              "geoFixes equator_walk (geoCalls fresh + 1) = Some \<lparr>latitude = 0.0001, longitude = 0\<rparr>"
    by (simp_all add: equator_walk_def fresh_def)
  show ?thesis
    using geo_displacement_reducer
            [of "\<lparr>latitude = 0, longitude = 0\<rparr>" "\<lparr>latitude = 0.0001, longitude = 0\<rparr>"
                equator_walk fresh]
          fx d
    by simp
qed

section \<open>The whisper mission\<close>

lemma squareSum_silence: "squareSum sm (replicate n 128) = sm"
  by (induction n arbitrary: sm) simp_all

lemma bufferRms_tone: "bufferRms (tone d) = \<bar>real (unat d) - 128\<bar> / 2048"
proof -
  define x where "x = real (unat d) - 128"
  have "squareSum 0 (tone d) = 2 * (x / 128)\<^sup>2"
    by (simp add: tone_def squareSum_silence Let_def x_def power2_eq_square)
  moreover have "length (tone d) = 512"
    by (simp add: tone_def)
  ultimately have "bufferRms (tone d) = sqrt (2 * (x / 128)\<^sup>2 / 512)"
    by (simp add: bufferRms_def)
  also have "2 * (x / 128)\<^sup>2 / 512 = (x / 2048)\<^sup>2"
    by (simp add: power2_eq_square)
  also have "sqrt ((x / 2048)\<^sup>2) = \<bar>x / 2048\<bar>"
    by (rule real_sqrt_abs)
  finally show ?thesis
    by (simp add: x_def)
qed

lemma mission18_measured:
  assumes "measureSoundLevel p 3000 200 (println [Txt ''Whisper now for 3 seconds.''] st) = (Inr m, st')"
  shows "fst (mission18 p st) = Inr (case m of None \<Rightarrow> False | Some v \<Rightarrow> 0.01 < v \<and> v < 0.05)"
  using assms by (simp add: mission18_def Let_def)

lemma sampleCount_3000_200: "sampleCount 3000 200 = Some 15"
  by (simp add: sampleCount_def)

lemma whisper_edge_measured:
  "fst (measureSoundLevel whisper_edge 3000 200 (println [Txt ''Whisper now for 3 seconds.''] fresh))
     = Inr (Some 0.05)"
proof -
  let ?st = "println [Txt ''Whisper now for 3 seconds.''] fresh"
  let ?f = "\<lambda>k. bufferRms (audio whisper_edge (buffersRead ?st + k))"
  have mic: "micUsable whisper_edge ?st"
    by (simp add: micUsable_def whisper_edge_def refusing_def fresh_def println_def)
  have low: "?f k = 102 / 2048" if "k < 14" for k
    using that by (simp add: whisper_edge_def fresh_def println_def bufferRms_tone)
  have high: "?f 14 = 108 / 2048"
    by (simp add: whisper_edge_def fresh_def println_def bufferRms_tone)
  have "(\<Sum>k<15. ?f k) = (\<Sum>k<14. ?f k) + ?f 14"
    using sum.lessThan_Suc [of ?f 14] by simp
  also have "(\<Sum>k<14. ?f k) = (\<Sum>k<14::nat. 102 / 2048)"
    by (rule sum.cong) (simp_all add: low)
  finally have "(\<Sum>k<15. ?f k) = 3 / 4"
    by (simp add: high)
  then show ?thesis
    using measureSoundLevel_eq [OF mic sampleCount_3000_200] by simp
qed

text \<open>
  C7, as stated, fails on the code: a whisper measured at exactly 0.05, the upper bound,
  does not pass mission 18.
\<close>

theorem whisper_range_counterexample:
  "fst (measureSoundLevel whisper_edge 3000 200 (println [Txt ''Whisper now for 3 seconds.''] fresh))
     = Inr (Some 0.05)
   \<and> (0.01 :: real) \<le> 0.05 \<and> (0.05 :: real) \<le> 0.05
   \<and> fst (mission18 whisper_edge fresh) = Inr False"
proof -
  obtain st' where "measureSoundLevel whisper_edge 3000 200
                      (println [Txt ''Whisper now for 3 seconds.''] fresh) = (Inr (Some 0.05), st')"
    using whisper_edge_measured by (metis fst_conv surj_pair)
  then have "fst (mission18 whisper_edge fresh) = Inr False"
    using mission18_measured by fastforce
  then show ?thesis
    using whisper_edge_measured by simp
qed

text \<open>
  C7, amended. Mission 18 passes exactly when the measured value \<open>m\<close> lies strictly
  between its bounds, \<open>0.01 < m < 0.05\<close>; the bounds themselves fail, and so does an
  unavailable measurement.
\<close>

theorem whisper_range_exclusive:
  "(measureSoundLevel p 3000 200 (println [Txt ''Whisper now for 3 seconds.''] st) = (Inr (Some m), st')
      \<longrightarrow> fst (mission18 p st) = Inr (0.01 < m \<and> m < 0.05))
   \<and> (measureSoundLevel p 3000 200 (println [Txt ''Whisper now for 3 seconds.''] st) = (Inr None, st')
      \<longrightarrow> fst (mission18 p st) = Inr False)"
  using mission18_measured [of p st "Some m" st'] mission18_measured [of p st None st']
  by simp

theorem whisper_range_exclusive_witness:
  "fst (measureSoundLevel whisper 3000 200 (println [Txt ''Whisper now for 3 seconds.''] fresh))
     = Inr (Some (102 / 2048))
   \<and> fst (mission18 whisper fresh) = Inr True
   \<and> fst (measureSoundLevel refusing 3000 200 (println [Txt ''Whisper now for 3 seconds.''] fresh))
     = Inr None
   \<and> fst (mission18 refusing fresh) = Inr False"
proof -
  let ?st = "println [Txt ''Whisper now for 3 seconds.''] fresh"
  have mic: "micUsable whisper ?st"
    by (simp add: micUsable_def whisper_def refusing_def fresh_def println_def)
  have m: "measureSoundLevel whisper 3000 200 ?st =
             (Inr (Some (102 / 2048)), (snd (ensureMic whisper ?st))\<lparr>buffersRead := buffersRead ?st + 15\<rparr>)"
    using measureSoundLevel_eq [OF mic sampleCount_3000_200]
    by (simp add: whisper_def bufferRms_tone)
  have n: "measureSoundLevel refusing 3000 200 ?st =
             (Inr None, println [Txt ''Error: microphone permission denied or unavailable.''] ?st)"
    by (rule measureSoundLevel_null) (simp_all add: refusing_def fresh_def println_def)
  show ?thesis
    using whisper_range_exclusive [of whisper fresh "102 / 2048"
            "(snd (ensureMic whisper ?st))\<lparr>buffersRead := buffersRead ?st + 15\<rparr>"]
          whisper_range_exclusive [of refusing fresh 0
            "println [Txt ''Error: microphone permission denied or unavailable.''] ?st"]
          m n
    by simp
qed

section \<open>Composite missions\<close>

lemma composite_three:
  "(spec_composite [faceVerdict res, levelVerdict cmp m, countVerdict least n] = Passed)
     = (facePresent res \<and> (case m of None \<Rightarrow> False | Some v \<Rightarrow> cmp v) \<and> least \<le> n)"
  by (simp add: spec_composite_def faceVerdict_def levelVerdict_def countVerdict_def
        facePresent_def split: face_result.split option.split)

lemma composite_two_levels:
  "(spec_composite [levelVerdict cmp1 m1, levelVerdict cmp2 m2] = Passed)
     = ((case m1 of None \<Rightarrow> False | Some v \<Rightarrow> cmp1 v)
        \<and> (case m2 of None \<Rightarrow> False | Some v \<Rightarrow> cmp2 v))"
  by (simp add: spec_composite_def levelVerdict_def split: option.split)

lemma composite_face_level:
  "(spec_composite [faceVerdict res, levelVerdict cmp m] = Passed)
     = (facePresent res \<and> (case m of None \<Rightarrow> False | Some v \<Rightarrow> cmp v))"
  by (simp add: spec_composite_def faceVerdict_def levelVerdict_def
        facePresent_def split: face_result.split option.split)

lemma mission40_verdict:
  assumes "(if faceDetectorAvailable p
            then detectFace p 2000
                   (println [Txt ''Final composite: look at camera, shout once, then shake quickly.''] st)
            else (NotAvailable,
                  println [Txt ''Final composite: look at camera, shout once, then shake quickly.''] st))
             = (faceRes, st2)"
      and "measureSoundLevel p 1200 100 st2 = (r, st3)"
  shows "fst (mission40 p st) =
           (case r of
              Inl e \<Rightarrow> Inl e
            | Inr micR \<Rightarrow>
                Inr (facePresent faceRes
                     \<and> (case micR of None \<Rightarrow> False | Some v \<Rightarrow> 0.08 < v)
                     \<and> 2 \<le> motionCounts (stopMotionCounting (dispatchMotion (motionEvents p)
                              ((startMotionCounting p st3)\<lparr>motionCounts := 0\<rparr>)))))"
  using assms by (simp add: mission40_def Let_def split: sum.split)

lemma mission14_verdict:
  assumes "(if faceDetectorAvailable p then detectFace p 2500 st
            else (NotAvailable, snd (ensureCamera p st))) = (faceRes, st1)"
      and "measureSoundLevel p 2500 250 st1 = (r, st2)"
  shows "fst (mission14 p st) =
           Inr (facePresent faceRes
                \<and> (case (case r of Inl e \<Rightarrow> None | Inr v \<Rightarrow> v) of
                      None \<Rightarrow> False | Some v \<Rightarrow> v < 0.02))"
  using assms by (simp add: mission14_def Let_def split: sum.split)

text \<open>
  When their sound measurements return, the composite missions (14: face and silence;
  38: clap then silence; 40: face, shout and shake) pass exactly when the composite
  evaluator of the specification, the conjunction of their sub-verdicts, says Passed.
  When a sound measurement throws, mission 14 takes it as null; missions 38 and 40 throw
  with it.
\<close>

lemma composite_verdicts:
  "(let st1 = println [Txt ''Final composite: look at camera, shout once, then shake quickly.''] st;
        face = (if faceDetectorAvailable p then detectFace p 2000 st1 else (NotAvailable, st1));
        mic = measureSoundLevel p 1200 100 (snd face)
    in fst (mission40 p st) =
         (case fst mic of
            Inl e \<Rightarrow> Inl e
          | Inr micR \<Rightarrow>
              Inr (spec_composite
                     [faceVerdict (fst face),
                      levelVerdict (\<lambda>v. 0.08 < v) micR,
                      countVerdict 2
                        (motionCounts (stopMotionCounting (dispatchMotion (motionEvents p)
                           ((startMotionCounting p (snd mic))\<lparr>motionCounts := 0\<rparr>))))]
                   = Passed)))
   \<and> (let face = (if faceDetectorAvailable p then detectFace p 2500 st
                   else (NotAvailable, snd (ensureCamera p st)));
           sound = (case fst (measureSoundLevel p 2500 250 (snd face)) of
                      Inl e \<Rightarrow> None | Inr v \<Rightarrow> v)
       in fst (mission14 p st) =
            Inr (spec_composite [faceVerdict (fst face), levelVerdict (\<lambda>v. v < 0.02) sound]
                 = Passed))
   \<and> (let clap = measureSoundLevel p 1200 120 (println [Txt ''Clap loudly now, then stay silent.''] st);
           silence = measureSoundLevel p 4000 200 (snd clap)
       in fst (mission38 p st) =
            (case fst clap of
               Inl e \<Rightarrow> Inl e
             | Inr c \<Rightarrow>
                 (case fst silence of
                    Inl e \<Rightarrow> Inl e
                  | Inr s \<Rightarrow>
                      Inr (spec_composite [levelVerdict (\<lambda>v. 0.08 < v) c,
                                           levelVerdict (\<lambda>v. v < 0.02) s] = Passed))))
   \<and> (spec_composite subs = Passed \<longleftrightarrow> list_all (\<lambda>v. v = Passed) subs)
   \<and> spec_composite [Passed, Passed, Unavailable] = Failed
   \<and> spec_composite [Passed, Passed, Passed] = Passed"
proof -
  let ?st1 = "println [Txt ''Final composite: look at camera, shout once, then shake quickly.''] st"
  obtain faceRes st2 where f: "(if faceDetectorAvailable p then detectFace p 2000 ?st1
                                else (NotAvailable, ?st1)) = (faceRes, st2)"
    by (cases "if faceDetectorAvailable p then detectFace p 2000 ?st1 else (NotAvailable, ?st1)")
  obtain r st3 where m: "measureSoundLevel p 1200 100 st2 = (r, st3)"
    by (cases "measureSoundLevel p 1200 100 st2")
  have c40: "let st1 = ?st1;
        face = (if faceDetectorAvailable p then detectFace p 2000 st1 else (NotAvailable, st1));
        mic = measureSoundLevel p 1200 100 (snd face)
    in fst (mission40 p st) =
         (case fst mic of
            Inl e \<Rightarrow> Inl e
          | Inr micR \<Rightarrow>
              Inr (spec_composite
                     [faceVerdict (fst face),
                      levelVerdict (\<lambda>v. 0.08 < v) micR,
                      countVerdict 2
                        (motionCounts (stopMotionCounting (dispatchMotion (motionEvents p)
                           ((startMotionCounting p (snd mic))\<lparr>motionCounts := 0\<rparr>))))]
                   = Passed))"
    unfolding Let_def f fst_conv snd_conv m composite_three
    using mission40_verdict [OF f m] by (simp split: sum.split)
  obtain faceRes' st1' where f': "(if faceDetectorAvailable p then detectFace p 2500 st
                   else (NotAvailable, snd (ensureCamera p st))) = (faceRes', st1')"
    by (cases "if faceDetectorAvailable p then detectFace p 2500 st
               else (NotAvailable, snd (ensureCamera p st))")
  obtain r' st2' where m': "measureSoundLevel p 2500 250 st1' = (r', st2')"
    by (cases "measureSoundLevel p 2500 250 st1'")
  have c14: "let face = (if faceDetectorAvailable p then detectFace p 2500 st
                   else (NotAvailable, snd (ensureCamera p st)));
           sound = (case fst (measureSoundLevel p 2500 250 (snd face)) of
                      Inl e \<Rightarrow> None | Inr v \<Rightarrow> v)
       in fst (mission14 p st) =
            Inr (spec_composite [faceVerdict (fst face), levelVerdict (\<lambda>v. v < 0.02) sound]
                 = Passed)"
    unfolding Let_def f' fst_conv snd_conv m' composite_face_level
    using mission14_verdict [OF f' m'] by simp
  let ?st0 = "println [Txt ''Clap loudly now, then stay silent.''] st"
  obtain rc sc where mc: "measureSoundLevel p 1200 120 ?st0 = (rc, sc)"
    by (cases "measureSoundLevel p 1200 120 ?st0")
  obtain rs ss where ms: "measureSoundLevel p 4000 200 sc = (rs, ss)"
    by (cases "measureSoundLevel p 4000 200 sc")
  have c38: "let clap = measureSoundLevel p 1200 120 ?st0;
           silence = measureSoundLevel p 4000 200 (snd clap)
       in fst (mission38 p st) =
            (case fst clap of
               Inl e \<Rightarrow> Inl e
             | Inr c \<Rightarrow>
                 (case fst silence of
                    Inl e \<Rightarrow> Inl e
                  | Inr s \<Rightarrow>
                      Inr (spec_composite [levelVerdict (\<lambda>v. 0.08 < v) c,
                                           levelVerdict (\<lambda>v. v < 0.02) s] = Passed)))"
    unfolding Let_def mc fst_conv snd_conv ms composite_two_levels
    by (simp add: mission38_def Let_def mc ms split: sum.split)
  have sc: "spec_composite subs = Passed \<longleftrightarrow> list_all (\<lambda>v. v = Passed) subs"
    by (simp add: spec_composite_def)
  have ex: "spec_composite [Passed, Passed, Unavailable] = Failed"
           "spec_composite [Passed, Passed, Passed] = Passed"
    by (simp_all add: spec_composite_def)
  show ?thesis
    using c40 c14 c38 sc ex by blast
qed

lemma bufferRms_loud: "bufferRms (replicate 512 255) = 127 / 128"
proof -
  have "squareSum 0 (replicate 512 255) = 512 * (127 / 128)\<^sup>2"
    by (simp add: squareSum_spec spec_normalize_def sum_list_replicate)
  then have "bufferRms (replicate 512 255) = sqrt ((127 / 128)\<^sup>2)"
    by (simp add: bufferRms_def)
  also have "\<dots> = \<bar>127 / 128\<bar>"
    by (rule real_sqrt_abs)
  finally show ?thesis by simp
qed

lemma sampleCount_1200_100: "sampleCount 1200 100 = Some 12"
  by (simp add: sampleCount_def)

lemma detectFace_fst:
  assumes "cameraUsable p st" and "faceDetectorAvailable p" and "0 < timeoutMs"
  shows "fst (detectFace p timeoutMs st) = Available (detectLoop (detections p (detectCalls st)))"
  using assms by (auto simp add: detectFace_def ensureCamera_def cameraUsable_def Let_def)

lemma detectFace_frame:
  "micStream (snd (detectFace p timeoutMs st)) = micStream st
   \<and> micAnalyser (snd (detectFace p timeoutMs st)) = micAnalyser st
   \<and> micDataArray (snd (detectFace p timeoutMs st)) = micDataArray st
   \<and> buffersRead (snd (detectFace p timeoutMs st)) = buffersRead st
   \<and> motionActive (snd (detectFace p timeoutMs st)) = motionActive st
   \<and> detectCalls (snd (detectFace p timeoutMs st)) = detectCalls st + 1"
  by (simp add: detectFace_def ensureCamera_def println_def updatePerms_def Let_def)

lemma mission40_examples:
  "fst (mission40 final_ok fresh) = Inr True \<and> fst (mission40 final_no_mic fresh) = Inr False"
proof -
  let ?st1 = "println [Txt ''Final composite: look at camera, shout once, then shake quickly.''] fresh"
  let ?f = "\<lparr>box_x = 100, box_y = 80, box_width = 60, box_height = 60\<rparr> :: face"
  have st1: "\<not> micStream ?st1" "buffersRead ?st1 = 0" "\<not> motionActive ?st1"
    by (simp_all add: fresh_def println_def)
  have verdicts: "spec_composite [faceVerdict (Available [?f]), levelVerdict (\<lambda>v. 0.08 < v) (Some (127 / 128)),
                    countVerdict 2 2] = Passed"
    by (simp add: spec_composite_def faceVerdict_def levelVerdict_def countVerdict_def)
  have ok: "fst (mission40 final_ok fresh) = Inr True"
  proof -
    define st2 where "st2 = snd (detectFace final_ok 2000 ?st1)"
    have face: "fst (detectFace final_ok 2000 ?st1) = Available [?f]"
      by (subst detectFace_fst) (simp_all add: cameraUsable_def final_ok_def)
    have st2: "\<not> micStream st2" "buffersRead st2 = 0" "\<not> motionActive st2"
      using detectFace_frame [of final_ok 2000 ?st1] st1 by (simp_all add: st2_def)
    have usable: "micUsable final_ok st2"
      using st2 by (simp add: micUsable_def final_ok_def refusing_def)
    define st3 where "st3 = (snd (ensureMic final_ok st2))\<lparr>buffersRead := buffersRead st2 + 12\<rparr>"
    have mic: "measureSoundLevel final_ok 1200 100 st2 = (Inr (Some (127 / 128)), st3)"
      using measureSoundLevel_eq [OF usable sampleCount_1200_100]
      by (simp add: st3_def final_ok_def bufferRms_loud)
    have st3: "\<not> motionActive st3"
      using st2 ensureMic_frame [of final_ok st2] by (simp add: st3_def)
    have moves: "motionCounts (stopMotionCounting (dispatchMotion (motionEvents final_ok)
                   ((startMotionCounting final_ok st3)\<lparr>motionCounts := 0\<rparr>))) = 2"
      using st3
      by (simp add: final_ok_def startMotionCounting_def stopMotionCounting_def Let_def
            motionHandler_step magnitude_moved twelve_less_sqrt)
    have fd: "faceDetectorAvailable final_ok"
      by (simp add: final_ok_def)
    show ?thesis
      using composite_verdicts [of fresh final_ok]
      by (simp only: Let_def fd if_True face mic moves verdicts st2_def [symmetric]
            fst_conv snd_conv sum.case simp_thms)
  qed
  have no_mic: "fst (mission40 final_no_mic fresh) = Inr False"
  proof -
    define st2 where "st2 = snd (detectFace final_no_mic 2000 ?st1)"
    have st2: "\<not> micStream st2"
      using detectFace_frame [of final_no_mic 2000 ?st1] st1 by (simp add: st2_def)
    obtain st3 where mic: "measureSoundLevel final_no_mic 1200 100 st2 = (Inr None, st3)"
      using st2 by (simp add: measureSoundLevel_null final_no_mic_def final_ok_def)
    have fd: "faceDetectorAvailable final_no_mic"
      by (simp add: final_no_mic_def final_ok_def)
    have failed: "(spec_composite [a, levelVerdict cmp None, c] = Passed) = False" for a cmp c
      by (simp add: spec_composite_def levelVerdict_def)
    show ?thesis
      using composite_verdicts [of fresh final_no_mic]
      by (simp only: Let_def fd if_True mic failed st2_def [symmetric]
            fst_conv snd_conv sum.case simp_thms)
  qed
  show ?thesis
    using ok no_mic by simp
qed

section \<open>Face detection missing\<close>

lemma println_frame:
  "detectCalls (println l st) = detectCalls st \<and> score (println l st) = score st
   \<and> cameraStream (println l st) = cameraStream st \<and> micStream (println l st) = micStream st"
  by (simp add: println_def)

lemma measureSoundLevel_detectCalls:
  "detectCalls (snd (measureSoundLevel p d i st)) = detectCalls st"
proof -
  obtain r st1 where e: "ensureMic p st = (r, st1)"
    by (cases "ensureMic p st")
  have "detectCalls st1 = detectCalls st"
    using ensureMic_frame [of p st] by (simp add: e)
  then show ?thesis
    by (simp add: measureSoundLevel_def e soundLoop_eq split: sum.split option.split)
qed

lemma motionHandler_detectCalls: "detectCalls (motionHandler ev t st) = detectCalls st"
  by (simp add: motionHandler_step)

lemma dispatchMotion_detectCalls: "detectCalls (dispatchMotion evs st) = detectCalls st"
proof (induction evs arbitrary: st)
  case Nil
  show ?case by simp
next
  case (Cons e evs)
  obtain ev t where e: "e = (ev, t)" by (cases e)
  show ?case
    by (simp add: e Cons.IH motionHandler_detectCalls)
qed

lemma motion_window_detectCalls:
  "detectCalls (stopMotionCounting (dispatchMotion evs ((startMotionCounting p st)\<lparr>motionCounts := 0\<rparr>)))
     = detectCalls st"
  by (simp add: stopMotionCounting_def dispatchMotion_detectCalls startMotionCounting_def Let_def
        split: motion_permission.split)

lemma mission9_fallback:
  assumes "\<not> faceDetectorAvailable p"
  shows "fst (mission9 p st) = Inr (cameraUsable p st)"
    and "detectCalls (snd (mission9 p st)) = detectCalls st"
  using assms
  by (auto simp add: mission9_def ensureCamera_def cameraUsable_def println_def updatePerms_def)

lemma mission14_no_detector:
  assumes "\<not> faceDetectorAvailable p"
  shows "fst (mission14 p st) = Inr False"
    and "detectCalls (snd (mission14 p st)) = detectCalls st"
proof -
  let ?st1 = "snd (ensureCamera p st)"
  obtain r st2 where m: "measureSoundLevel p 2500 250 ?st1 = (r, st2)"
    by (cases "measureSoundLevel p 2500 250 ?st1")
  have d1: "detectCalls ?st1 = detectCalls st"
    by (simp add: ensureCamera_def println_def updatePerms_def)
  have d2: "detectCalls st2 = detectCalls st"
    using measureSoundLevel_detectCalls [of p 2500 250 ?st1] by (simp add: m d1)
  show "fst (mission14 p st) = Inr False"
    using assms m by (simp add: mission14_def Let_def facePresent_def split: sum.split)
  show "detectCalls (snd (mission14 p st)) = detectCalls st"
    using assms m d2
    by (simp add: mission14_def Let_def facePresent_def println_def split: sum.split)
qed

lemma mission40_no_detector:
  assumes "\<not> faceDetectorAvailable p"
  shows "fst (mission40 p st) \<noteq> Inr True"
    and "detectCalls (snd (mission40 p st)) = detectCalls st"
proof -
  let ?st1 = "println [Txt ''Final composite: look at camera, shout once, then shake quickly.''] st"
  obtain r st3 where m: "measureSoundLevel p 1200 100 ?st1 = (r, st3)"
    by (cases "measureSoundLevel p 1200 100 ?st1")
  have d3: "detectCalls st3 = detectCalls st"
    using measureSoundLevel_detectCalls [of p 1200 100 ?st1] by (simp add: m println_frame)
  show "fst (mission40 p st) \<noteq> Inr True"
    using assms m by (simp add: mission40_def Let_def facePresent_def split: sum.split)
  show "detectCalls (snd (mission40 p st)) = detectCalls st"
    using assms m d3
    by (simp add: mission40_def Let_def facePresent_def println_def motion_window_detectCalls
          split: sum.split)
qed

text \<open>
  C9, as stated, fails on the code: without the FaceDetector interface mission 9 passes
  as soon as the camera works.
\<close>

theorem face_capability_counterexample:
  "\<not> faceDetectorAvailable webcam_only \<and> fst (mission9 webcam_only fresh) = Inr True"
  by (simp add: mission9_def ensureCamera_def webcam_only_def refusing_def fresh_def)

text \<open>
  C9, amended. Without the FaceDetector interface, missions 4, 20, 23, 32 and 37 fail at
  once: they print their capability message, which is not their no-face message, and
  return false with \<open>detectFace\<close> not called and nothing else touched. Mission 9 does not
  call \<open>detectFace\<close> either, but falls back to the camera: it passes exactly when the
  camera stream exists or can be acquired. The composite missions 14 and 40 do not call
  \<open>detectFace\<close> and do not pass.
\<close>

theorem face_capability_missing:
  assumes "\<not> faceDetectorAvailable p"
  shows "mission4 p st =
           (Inr False, println [Txt (''Face Detector API not available in this browser '' @ em_dash
                                     @ '' cannot auto-detect smile.'')] st)
       \<and> mission20 p st =
           (Inr False, println [Txt (''FaceDetector not available '' @ em_dash @ '' failed.'')] st)
       \<and> mission23 p st =
           (Inr False, println [Txt (''No FaceDetector '' @ em_dash @ '' mission failed.'')] st)
       \<and> mission32 p st = (Inr False, println [Txt ''No face detector available''] st)
       \<and> mission37 p st =
           (Inr False, println [Txt (''No FaceDetector '' @ em_dash @ '' fail.'')] st)
       \<and> detectCalls (println l st) = detectCalls st
       \<and> ''Face Detector API not available in this browser '' @ em_dash @ '' cannot auto-detect smile.''
            \<noteq> cross_mark @ '' No face found.''
       \<and> ''FaceDetector not available '' @ em_dash @ '' failed.'' \<noteq> cross_mark @ '' Blink not detected.''
       \<and> ''No FaceDetector '' @ em_dash @ '' mission failed.'' \<noteq> cross_mark @ '' Head turn not detected.''
       \<and> ''No face detector available'' \<noteq> cross_mark @ '' No face detected.''
       \<and> ''No FaceDetector '' @ em_dash @ '' fail.'' \<noteq> cross_mark @ '' Could not detect both head sides.''
       \<and> fst (mission9 p st) = Inr (cameraUsable p st)
       \<and> detectCalls (snd (mission9 p st)) = detectCalls st
       \<and> fst (mission14 p st) = Inr False
       \<and> detectCalls (snd (mission14 p st)) = detectCalls st
       \<and> fst (mission40 p st) \<noteq> Inr True
       \<and> detectCalls (snd (mission40 p st)) = detectCalls st"
proof -
  have single: "mission4 p st =
           (Inr False, println [Txt (''Face Detector API not available in this browser '' @ em_dash
                                     @ '' cannot auto-detect smile.'')] st)"
       "mission20 p st =
           (Inr False, println [Txt (''FaceDetector not available '' @ em_dash @ '' failed.'')] st)"
       "mission23 p st =
           (Inr False, println [Txt (''No FaceDetector '' @ em_dash @ '' mission failed.'')] st)"
       "mission32 p st = (Inr False, println [Txt ''No face detector available''] st)"
       "mission37 p st =
           (Inr False, println [Txt (''No FaceDetector '' @ em_dash @ '' fail.'')] st)"
    using assms
    by (simp_all add: mission4_def mission20_def mission23_def mission32_def mission37_def)
  have msgs: "''Face Detector API not available in this browser '' @ em_dash @ '' cannot auto-detect smile.''
            \<noteq> cross_mark @ '' No face found.''"
       "''FaceDetector not available '' @ em_dash @ '' failed.'' \<noteq> cross_mark @ '' Blink not detected.''"
       "''No FaceDetector '' @ em_dash @ '' mission failed.'' \<noteq> cross_mark @ '' Head turn not detected.''"
       "''No face detector available'' \<noteq> cross_mark @ '' No face detected.''"
       "''No FaceDetector '' @ em_dash @ '' fail.'' \<noteq> cross_mark @ '' Could not detect both head sides.''"
    by (simp_all add: cross_mark_def em_dash_def)
  show ?thesis
    using single msgs println_frame [of l st] mission9_fallback [OF assms, of st]
      mission14_no_detector [OF assms, of st] mission40_no_detector [OF assms, of st]
    by simp
qed

theorem face_capability_missing_witness:
  "\<not> faceDetectorAvailable webcam_only \<and> \<not> faceDetectorAvailable refusing
   \<and> fst (mission4 webcam_only fresh) = Inr False
   \<and> detectCalls (snd (mission4 webcam_only fresh)) = 0
   \<and> fst (mission9 webcam_only fresh) = Inr True
   \<and> fst (mission9 refusing fresh) = Inr False"
proof -
  have a: "\<not> faceDetectorAvailable webcam_only" "\<not> faceDetectorAvailable refusing"
    by (simp_all add: webcam_only_def refusing_def)
  have cam: "cameraUsable webcam_only fresh" "\<not> cameraUsable refusing fresh"
    by (simp_all add: cameraUsable_def webcam_only_def refusing_def fresh_def)
  have d: "detectCalls fresh = 0"
    by (simp add: fresh_def)
  show ?thesis
    using face_capability_missing [OF a(1), of fresh] face_capability_missing [OF a(2), of fresh]
      a cam d
    by simp
qed

section \<open>Running a mission by id\<close>

lemma find_absent: "x \<notin> set (map f xs) \<Longrightarrow> find (\<lambda>m. f m = x) xs = None"
  by (induction xs) auto

text \<open>
  C10. The catalogue has forty entries, mission1 to mission40. For an id that is not
  among them (mission41 is not), \<open>runMissionById\<close> prints that the mission was not found
  and returns: the state is the one it was given with that one line added, so the score
  and every stream, counter and handle are unchanged, whatever the mission bodies are.
\<close>

theorem unknown_mission_frame:
  assumes "mid \<notin> set (map mission_id (missions u))"
  shows "runMissionById u p mid st = st\<lparr>outputText := outputText st @ [[Txt ''Mission not found.'']]\<rparr>
       \<and> score (runMissionById u p mid st) = score st
       \<and> length (missions u) = 40
       \<and> ''mission41'' \<notin> set (map mission_id (missions u))"
proof -
  have "find (\<lambda>x. mission_id x = mid) (missions u) = None"
    using assms by (rule find_absent)
  then have run: "runMissionById u p mid st = st\<lparr>outputText := outputText st @ [[Txt ''Mission not found.'']]\<rparr>"
    by (simp add: runMissionById_def println_def)
  have "length (missions u) = 40" "''mission41'' \<notin> set (map mission_id (missions u))"
    by (simp_all add: missions_def entry_def mk_def)
  then show ?thesis
    using run by simp
qed

theorem unknown_mission_frame_witness:
  "runMissionById plain_others dark_room ''mission41'' fresh
     = fresh\<lparr>outputText := [[Txt ''Mission not found.'']]\<rparr>
   \<and> score (runMissionById plain_others dark_room ''mission41'' fresh) = 0"
proof -
  have "''mission41'' \<notin> set (map mission_id (missions plain_others))"
    by (simp add: missions_def entry_def mk_def)
  from unknown_mission_frame [OF this, of dark_room fresh] show ?thesis
    by (simp add: fresh_def)
qed

section \<open>Camera refused\<close>

lemma contrastLoop_black:
  "contrastLoop dark bright (solidFrame n 0 0 0 a) = (dark + n, bright)"
  by (induction n arbitrary: dark) (simp_all add: solidFrame_def luminance_def)

text \<open>
  C2 on the code. With the camera refused, \<open>measureBrightness\<close> returns null and mission 1
  fails. Mission 29 goes on after the refusal, reads the blank canvas of 320 by 240
  transparent black pixels, finds every pixel dark and passes.
\<close>

theorem camera_refused_mission29_passes:
  "fst (ensureCamera refusing fresh) = Inl PermissionDenied
   \<and> fst (measureBrightness refusing 2000 250 fresh) = Inr None
   \<and> fst (mission1 refusing fresh) = Inr False
   \<and> fst (mission29 refusing fresh) = Inr True"
proof -
  have "fst (ensureCamera refusing fresh) = Inl PermissionDenied"
    by (simp add: ensureCamera_def refusing_def fresh_def)
  moreover have "fst (measureBrightness refusing 2000 250 fresh) = Inr None"
    by (simp add: measureBrightness_null refusing_def fresh_def)
  moreover have "fst (mission1 refusing fresh) = Inr False"
    by (simp add: mission1_def measureBrightness_null refusing_def fresh_def println_def Let_def)
  moreover have "fst (mission29 refusing fresh) = Inr True"
    by (simp add: mission29_def ensureCamera_def getImageData_def refusing_def fresh_def
          println_def dimOr_def contrastLoop_black Let_def)
  ultimately show ?thesis by simp
qed

section \<open>A sound measurement that throws\<close>

lemma measureSoundLevel_setup_fails:
  assumes "\<not> micStream st" and "micGrant p" and "webAudio p = ContextThrows"
      and "sampleInterval \<noteq> 0"
  shows "measureSoundLevel p durationMs sampleInterval st =
           (Inr None,
            println [Txt ''Error: microphone permission denied or unavailable.'']
              (st\<lparr>micStream := True\<rparr>))"
  using assms by (simp add: measureSoundLevel_def ensureMic_def Let_def)

lemma measureSoundLevel_throws:
  assumes "micStream st" and "\<not> micAnalyser st" and "sampleInterval \<noteq> 0"
  shows "measureSoundLevel p durationMs sampleInterval st = (Inl TypeError, st)"
  using assms by (simp add: measureSoundLevel_def ensureMic_def sampleCount_def)

lemma mission38_throws:
  assumes "\<not> micStream st" and "\<not> micAnalyser st" and "micGrant p" and "webAudio p = ContextThrows"
  shows "mission38 p st =
           (Inl TypeError,
            println [Txt ''Error: microphone permission denied or unavailable.'']
              ((println [Txt ''Clap loudly now, then stay silent.''] st)\<lparr>micStream := True\<rparr>))"
proof -
  let ?st1 = "println [Txt ''Clap loudly now, then stay silent.''] st"
  let ?st2 = "println [Txt ''Error: microphone permission denied or unavailable.'']
                (?st1\<lparr>micStream := True\<rparr>)"
  have first: "measureSoundLevel p 1200 120 ?st1 = (Inr None, ?st2)"
    using assms by (intro measureSoundLevel_setup_fails) (simp_all add: println_def)
  have second: "measureSoundLevel p 4000 200 ?st2 = (Inl TypeError, ?st2)"
    using assms by (intro measureSoundLevel_throws) (simp_all add: println_def)
  show ?thesis
    by (simp add: mission38_def Let_def first second)
qed

lemma mission40_throws:
  assumes "micStream st" and "\<not> micAnalyser st" and "\<not> faceDetectorAvailable p"
  shows "fst (mission40 p st) = Inl TypeError"
proof -
  let ?st1 = "println [Txt ''Final composite: look at camera, shout once, then shake quickly.''] st"
  have "measureSoundLevel p 1200 100 ?st1 = (Inl TypeError, ?st1)"
    using assms by (intro measureSoundLevel_throws) (simp_all add: println_def)
  then show ?thesis
    using assms by (simp add: mission40_def Let_def)
qed

lemma mission40_setup_fails:
  assumes "\<not> micStream st" and "\<not> micAnalyser st" and "micGrant p" and "webAudio p = ContextThrows"
      and "\<not> faceDetectorAvailable p"
  shows "fst (mission40 p st) = Inr False"
    and "micStream (snd (mission40 p st))" and "\<not> micAnalyser (snd (mission40 p st))"
proof -
  let ?st1 = "println [Txt ''Final composite: look at camera, shout once, then shake quickly.''] st"
  let ?st2 = "println [Txt ''Error: microphone permission denied or unavailable.'']
                (?st1\<lparr>micStream := True\<rparr>)"
  have m: "measureSoundLevel p 1200 100 ?st1 = (Inr None, ?st2)"
    using assms by (intro measureSoundLevel_setup_fails) (simp_all add: println_def)
  have keep: "micStream (dispatchMotion evs s) = micStream s
              \<and> micAnalyser (dispatchMotion evs s) = micAnalyser s" for evs s
  proof (induction evs arbitrary: s)
    case Nil
    show ?case by simp
  next
    case (Cons e evs)
    obtain ev t where e: "e = (ev, t)" by (cases e)
    show ?case
      by (simp add: e Cons.IH motionHandler_step)
  qed
  have pl: "micStream (println l s) = micStream s \<and> micAnalyser (println l s) = micAnalyser s"
    for l s
    by (simp add: println_def)
  show "fst (mission40 p st) = Inr False"
    using assms by (simp add: mission40_def Let_def m)
  show "micStream (snd (mission40 p st))"
    using assms
    by (simp add: mission40_def Let_def m pl facePresent_def stopMotionCounting_def keep
          startMotionCounting_def split: motion_permission.split)
  show "\<not> micAnalyser (snd (mission40 p st))"
    using assms
    by (simp add: mission40_def Let_def m pl facePresent_def stopMotionCounting_def keep
          startMotionCounting_def split: motion_permission.split)
qed

lemma find_mission38:
  "find (\<lambda>x. mission_id x = ''mission38'') (missions u)
     = Some (entry u ''mission38'' ''Clap then silence'' mission38)"
  by (simp add: missions_def entry_def mk_def)

text \<open>
  C8 on the code. On a browser that grants the microphone but whose \<open>AudioContext\<close>
  cannot be constructed, the first measurement of mission 38 is null, an unavailable
  sub-result; its second measurement finds the stream cached and the analyser null and
  throws. Mission 38 ends with no verdict, and \<open>runMissionById\<close> prints the error and
  leaves the score as it was. Mission 40 fails on its first run there and throws on the
  next one. Mission 14, which catches the throw of its measurement, fails in that state.
\<close>

theorem composite_throws_without_verdict:
  "fst (mission38 no_web_audio fresh) = Inl TypeError
   \<and> score (runMissionById plain_others no_web_audio ''mission38'' fresh) = score fresh
   \<and> [Txt ''Mission error: '', Err TypeError]
        \<in> set (outputText (runMissionById plain_others no_web_audio ''mission38'' fresh))
   \<and> fst (mission40 no_web_audio fresh) = Inr False
   \<and> fst (mission40 no_web_audio (snd (mission40 no_web_audio fresh))) = Inl TypeError
   \<and> fst (mission14 no_web_audio (snd (mission40 no_web_audio fresh))) = Inr False"
proof -
  have p: "micGrant no_web_audio" "webAudio no_web_audio = ContextThrows"
          "\<not> faceDetectorAvailable no_web_audio"
    by (simp_all add: no_web_audio_def refusing_def)
  have s: "\<not> micStream fresh" "\<not> micAnalyser fresh"
    by (simp_all add: fresh_def)
  have m38: "fst (mission38 no_web_audio fresh) = Inl TypeError"
    using mission38_throws [OF s p(1,2)] by simp
  let ?st2 = "println [Txt []]
                (println [Txt ''--- '', Txt ''mission38'', Txt '' : '', Txt ''Clap then silence'',
                          Txt '' ---''] fresh)"
  let ?st3 = "println [Txt ''Error: microphone permission denied or unavailable.'']
                ((println [Txt ''Clap loudly now, then stay silent.''] ?st2)\<lparr>micStream := True\<rparr>)"
  have s2: "\<not> micStream ?st2" "\<not> micAnalyser ?st2"
    by (simp_all add: fresh_def println_def)
  have r38: "mission38 no_web_audio ?st2 = (Inl TypeError, ?st3)"
    by (rule mission38_throws [OF s2 p(1,2)])
  have sc: "score (println l s) = score s" for l s
    by (simp add: println_def)
  have run: "runMissionById plain_others no_web_audio ''mission38'' fresh =
               println [Txt ''Score now: '', Num (score fresh)]
                 (println [Txt ''Mission error: '', Err TypeError] ?st3)"
    by (simp add: runMissionById_def find_mission38 entry_def mk_def plain_others_def Let_def
          r38 sc)
  have score: "score (runMissionById plain_others no_web_audio ''mission38'' fresh) = score fresh"
    by (simp add: run sc)
  have line: "[Txt ''Mission error: '', Err TypeError]
        \<in> set (outputText (runMissionById plain_others no_web_audio ''mission38'' fresh))"
    by (simp add: run println_def)
  note first = mission40_setup_fails [OF s p]
  have again: "fst (mission40 no_web_audio (snd (mission40 no_web_audio fresh))) = Inl TypeError"
    using mission40_throws [OF first(2,3) p(3)] .
  have sibling: "fst (mission14 no_web_audio (snd (mission40 no_web_audio fresh))) = Inr False"
    using mission14_no_detector(1) [OF p(3)] .
  show ?thesis
    using m38 score line first(1) again sibling by simp
qed

end
